theory Spec2Isabelle
  imports
    Main
    "HOL-Library.Char_ord"
    "HOL-Library.List_Lexorder"
    "HOL-Library.Multiset"
    "HOL-Library.Sublist"
begin

section \<open>JavaScript values and built-ins used by the blocks\<close>

text \<open>
  A JavaScript string is modelled as a \<^typ>\<open>string\<close>, one \<^typ>\<open>char\<close> per code unit
  (code units below 256). The order on strings is the lexicographic order on code units
  (\<open>Char_ord\<close> with \<open>List_Lexorder\<close>), which is the order the default
  \<^verbatim>\<open>Array.prototype.sort()\<close> compares strings by. That sort is stable; on strings, equal
  elements cannot be told apart, so its result is \<^term>\<open>sort xs\<close>.
\<close>

text \<open>
  \<^verbatim>\<open>new Set(xs)\<close> keeps the elements in insertion order and ignores an element that is
  already a member; \<^verbatim>\<open>Array.from\<close> lists them in that order.
\<close>

definition set_add :: "'a list \<Rightarrow> 'a \<Rightarrow> 'a list" where
  "set_add s x = (if x \<in> set s then s else s @ [x])"

definition new_Set :: "'a list \<Rightarrow> 'a list" where
  "new_Set xs = foldl set_add [] xs"

text \<open>\<^verbatim>\<open>xs.join(sep)\<close> on an array of strings.\<close>

fun join :: "string \<Rightarrow> string list \<Rightarrow> string" where
  "join sep [] = []"
| "join sep [x] = x"
| "join sep (x # y # ys) = x @ sep @ join sep (y # ys)"

text \<open>
  Values that reach \<^verbatim>\<open>JSON.stringify\<close>. An object is the list of its properties in
  property order. The numbers are the integers below \<open>10^21\<close> in absolute value, the ones
  that print in plain decimal notation; other numbers are outside the model.
\<close>

datatype json =
    JNull
  | JBool bool
  | JNum int
  | JString string
  | JArray "json list"
  | JObject "(string \<times> json) list"

definition hex_digit :: "nat \<Rightarrow> char" where
  "hex_digit n = (if n < 10 then char_of (48 + n) else char_of (87 + n))"

text \<open>The escaping of one code unit inside a JSON string literal (QuoteJSONString).\<close>

definition json_escape :: "char \<Rightarrow> string" where
  "json_escape c =
     (if c = CHR 0x08 then [CHR 0x5C, CHR ''b'']
      else if c = CHR 0x09 then [CHR 0x5C, CHR ''t'']
      else if c = CHR 0x0A then [CHR 0x5C, CHR ''n'']
      else if c = CHR 0x0C then [CHR 0x5C, CHR ''f'']
      else if c = CHR 0x0D then [CHR 0x5C, CHR ''r'']
      else if c = CHR 0x22 then [CHR 0x5C, CHR 0x22]
      else if c = CHR 0x5C then [CHR 0x5C, CHR 0x5C]
      else if (of_char c :: nat) < 32
        then [CHR 0x5C, CHR ''u'', CHR ''0'', CHR ''0'',
              hex_digit (of_char c div 16), hex_digit (of_char c mod 16)]
      else [c])"

definition json_quote :: "string \<Rightarrow> string" where
  "json_quote s = [CHR 0x22] @ concat (map json_escape s) @ [CHR 0x22]"

fun nat_digits :: "nat \<Rightarrow> string" where
  "nat_digits n =
     (if n < 10 then [char_of (48 + n)]
      else nat_digits (n div 10) @ [char_of (48 + n mod 10)])"

definition int_digits :: "int \<Rightarrow> string" where
  "int_digits i = (if i < 0 then CHR ''-'' # nat_digits (nat (- i)) else nat_digits (nat i))"

fun JSON_stringify :: "json \<Rightarrow> string" where
  "JSON_stringify JNull = ''null''"
| "JSON_stringify (JBool b) = (if b then ''true'' else ''false'')"
| "JSON_stringify (JNum n) = int_digits n"
| "JSON_stringify (JString s) = json_quote s"
| "JSON_stringify (JArray xs) = ''['' @ join '','' (map JSON_stringify xs) @ '']''"
| "JSON_stringify (JObject kvs) =
     ''{'' @ join '','' (map (\<lambda>(k, v). json_quote k @ '':'' @ JSON_stringify v) kvs) @ ''}''"

definition json_strings :: "string list \<Rightarrow> json" where
  "json_strings xs = JArray (map JString xs)"

text \<open>Property lookup on an object: the value of the first property of that name.\<close>

definition get_property :: "json \<Rightarrow> string \<Rightarrow> json option" where
  "get_property j k = (case j of JObject kvs \<Rightarrow> map_of kvs k | _ \<Rightarrow> None)"

section \<open>Contributions\<close>

text \<open>
  What a block's \<^verbatim>\<open>produce\<close> and \<^verbatim>\<open>setup\<close> return: calls of other blocks with the addons
  passed to them, files by path, and scripts tagged with a phase. A property that a
  function does not return is the empty list here.
\<close>

datatype block_call = BlockCall string json

datatype CommandPhase = Process

record script =
  commands :: "string list"
  phase :: CommandPhase

record contribution =
  addons :: "block_call list"
  files :: "(string \<times> string) list"
  scripts :: "script list"

section \<open>Base options\<close>

text \<open>
  The base options the blocks below read: \<^verbatim>\<open>options.bin\<close> (a string, a record of strings,
  or undefined), \<^verbatim>\<open>options.type\<close> and \<^verbatim>\<open>options.words\<close> (both may be undefined).
\<close>

datatype bin_value = BinString string | BinRecord "(string \<times> string) list"

record options =
  options_bin :: "bin_value option"
  options_type :: "string option"
  options_words :: "string list option"

section \<open>The CSpell block\<close>

text \<open>The block's addons, \<^verbatim>\<open>ignores\<close> and \<^verbatim>\<open>words\<close>, are arrays of strings.\<close>

record cspell_addons =
  ignores :: "string list"
  words :: "string list"

definition filesGlob :: string where
  \<open>filesGlob = ''"**" ".github/**/*"''\<close>

text \<open>
  \<^verbatim>\<open>Array.from(new Set([...(options.words ?? []), ...words])).sort()\<close>
\<close>

definition allWords :: "options \<Rightarrow> cspell_addons \<Rightarrow> string list" where
  "allWords opts a =
     sort (new_Set ((case options_words opts of None \<Rightarrow> [] | Some ws \<Rightarrow> ws) @ words a))"

definition base_ignorePaths :: "string list" where
  "base_ignorePaths = [''.github'', ''CHANGELOG.md'', ''lib'', ''node_modules'', ''pnpm-lock.yaml'']"

definition ignorePaths :: "cspell_addons \<Rightarrow> string list" where
  "ignorePaths a = sort (base_ignorePaths @ ignores a)"

text \<open>
  The object handed to \<^verbatim>\<open>JSON.stringify\<close> for \<^verbatim>\<open>cspell.json\<close>, from the two lists.
  Spreading \<^verbatim>\<open>allWords.length && { words: allWords }\<close> adds the property only when the
  length is not zero.
\<close>

definition cspell_json :: "string list \<Rightarrow> string list \<Rightarrow> json" where
  "cspell_json ips aws =
     JObject
       ([(''dictionaries'', json_strings [''npm'', ''node'', ''typescript'']),
         (''ignorePaths'', json_strings ips)]
        @ (if length aws \<noteq> 0 then [(''words'', json_strings aws)] else []))"

text \<open>
  The value \<^verbatim>\<open>produce\<close> returns, from the two lists. \<^verbatim>\<open>getPackageDependencies\<close> (the
  version table of \<^verbatim>\<open>data/packageData\<close>) is a parameter: it maps package names to the
  object of their versions.
\<close>

definition cspell_contribution ::
  "(string list \<Rightarrow> json) \<Rightarrow> string list \<Rightarrow> string list \<Rightarrow> contribution" where
  \<open>cspell_contribution getPackageDependencies ips aws =
     \<lparr> addons =
         [BlockCall ''blockDevelopmentDocs''
            (JObject [(''sections'', JObject [(''Linting'', JObject [(''contents'',
               JObject [(''items'', json_strings
                 [''- `pnpm lint:spelling` ([cspell](https://cspell.org)): Spell checks across all source files''])])])])]),
          BlockCall ''blockVSCode''
            (JObject [(''extensions'', json_strings [''streetsidesoftware.code-spell-checker''])]),
          BlockCall ''blockGitHubActionsCI''
            (JObject [(''jobs'', JArray [JObject
               [(''name'', JString ''Lint Spelling''),
                (''steps'', JArray [JObject [(''run'', JString ''pnpm lint:spelling'')]])]])]),
          BlockCall ''blockPackageJson''
            (JObject [(''properties'', JObject
               [(''devDependencies'', getPackageDependencies [''cspell'']),
                (''scripts'', JObject
                   [(''lint:spelling'', JString (''cspell '' @ filesGlob))])])])],
       files = [(''cspell.json'', JSON_stringify (cspell_json ips aws))],
       scripts = [] \<rparr>\<close>

definition blockCSpell_produce ::
  "(string list \<Rightarrow> json) \<Rightarrow> options \<Rightarrow> cspell_addons \<Rightarrow> contribution" where
  "blockCSpell_produce getPackageDependencies opts a =
     cspell_contribution getPackageDependencies (ignorePaths a) (allWords opts a)"

text \<open>
  \<^verbatim>\<open>word.replaceAll(c, rep)\<close> for a search string \<open>c\<close> of one code unit and a replacement
  without \<^verbatim>\<open>$\<close> patterns.
\<close>

definition replaceAll_char :: "char \<Rightarrow> string \<Rightarrow> string \<Rightarrow> string" where
  "replaceAll_char c rep s = concat (map (\<lambda>x. if x = c then rep else [x]) s)"

text \<open>
  \<^verbatim>\<open>setup\<close>: the strings of the options, each with its double quotes replaced by spaces,
  become the \<^verbatim>\<open>--words\<close> arguments of one command. \<^verbatim>\<open>getObjectStringsDeep\<close> (package
  \<^verbatim>\<open>object-strings-deep\<close>) and \<^verbatim>\<open>resolveBin\<close> are parameters.
\<close>

definition wordArgs :: "(options \<Rightarrow> string list) \<Rightarrow> options \<Rightarrow> string" where
  \<open>wordArgs getObjectStringsDeep opts =
     join '' ''
       (map (\<lambda>word. ''--words "'' @ replaceAll_char (CHR 0x22) '' '' word @ ''"'')
            (getObjectStringsDeep opts))\<close>

definition blockCSpell_setup ::
  "(options \<Rightarrow> string list) \<Rightarrow> (string \<Rightarrow> string) \<Rightarrow> options \<Rightarrow> contribution" where
  "blockCSpell_setup getObjectStringsDeep resolveBin opts =
     \<lparr> addons = [],
       files = [],
       scripts =
         [\<lparr> commands =
              [''node '' @ resolveBin ''cspell-populate-words/bin/index.mjs'' @ '' ''
               @ wordArgs getObjectStringsDeep opts],
            phase = Process \<rparr>] \<rparr>"

subsection \<open>The same function over a store of arrays\<close>

text \<open>
  JavaScript arrays are mutable objects and \<^verbatim>\<open>sort()\<close> sorts in place. Here the arrays
  live in a store, an address being an index into it; \<^verbatim>\<open>produce\<close> receives the addresses
  of \<^verbatim>\<open>options.words\<close>, \<^verbatim>\<open>addons.ignores\<close> and \<^verbatim>\<open>addons.words\<close>. An array literal
  and \<^verbatim>\<open>Array.from\<close> allocate a new array.
\<close>

type_synonym store = "string list list"

definition alloc :: "store \<Rightarrow> string list \<Rightarrow> nat \<times> store" where
  "alloc h xs = (length h, h @ [xs])"

definition read_array :: "store \<Rightarrow> nat \<Rightarrow> string list option" where
  "read_array h r = (if r < length h then Some (h ! r) else None)"

definition sort_in_place :: "store \<Rightarrow> nat \<Rightarrow> store" where
  "sort_in_place h r = h[r := sort (h ! r)]"

definition blockCSpell_produce_store ::
  "(string list \<Rightarrow> json) \<Rightarrow> store \<Rightarrow> nat option \<Rightarrow> nat \<Rightarrow> nat
     \<Rightarrow> (contribution \<times> store) option" where
  "blockCSpell_produce_store getPackageDependencies h options_words_ref ignores_ref words_ref =
     (case (case options_words_ref of None \<Rightarrow> Some [] | Some r \<Rightarrow> read_array h r) of
        None \<Rightarrow> None
      | Some ows \<Rightarrow>
     (case read_array h words_ref of
        None \<Rightarrow> None
      | Some ws \<Rightarrow>
          let (r1, h1) = alloc h (ows @ ws);
              (r2, h2) = alloc h1 (new_Set (h1 ! r1));
              h3 = sort_in_place h2 r2
          in (case read_array h3 ignores_ref of
                None \<Rightarrow> None
              | Some igs \<Rightarrow>
                  let (r3, h4) = alloc h3 (base_ignorePaths @ igs);
                      h5 = sort_in_place h4 r3
                  in Some (cspell_contribution getPackageDependencies (h5 ! r3) (h5 ! r2), h5))))"

section \<open>The ESLint block\<close>

subsection \<open>The regular expressions of the sort keys\<close>

text \<open>
  \<^verbatim>\<open>\w\<close> is a letter, a digit or the underscore; \<^verbatim>\<open>.\<close> is any code unit that is not a
  line terminator. \<^verbatim>\<open>replaceAll(/\W+/g, "")\<close> keeps the word characters.
\<close>

definition is_word_char :: "char \<Rightarrow> bool" where
  "is_word_char c =
     (let n = (of_char c :: nat)
      in (48 \<le> n \<and> n \<le> 57) \<or> (65 \<le> n \<and> n \<le> 90) \<or> n = 95 \<or> (97 \<le> n \<and> n \<le> 122))"

definition is_line_terminator :: "char \<Rightarrow> bool" where
  "is_line_terminator c = (c = CHR 0x0A \<or> c = CHR 0x0D)"

definition dot_run :: "string \<Rightarrow> string" where
  "dot_run s = takeWhile (\<lambda>c. \<not> is_line_terminator c) s"

definition strip_non_word :: "string \<Rightarrow> string" where
  "strip_non_word s = filter is_word_char s"

text \<open>
  The first group of the first match of \<^verbatim>\<open>/files: (.+)/\<close>: at the leftmost position where
  \<^verbatim>\<open>files: \<close> is followed by at least one code unit that is not a line terminator, the
  run of such code units.
\<close>

fun files_capture :: "string \<Rightarrow> string option" where
  "files_capture [] = None"
| "files_capture (c # cs) =
     (if prefix ''files: '' (c # cs) \<and> dot_run (drop 7 (c # cs)) \<noteq> []
      then Some (dot_run (drop 7 (c # cs)))
      else files_capture cs)"

text \<open>
  \<^verbatim>\<open>processForSort\<close>. For the empty line, \<^verbatim>\<open>line[0]\<close> is undefined and the test
  \<^verbatim>\<open>/\w+/.test(undefined)\<close> is made on the string \<^verbatim>\<open>"undefined"\<close>, which matches.
\<close>

definition processForSort :: "string \<Rightarrow> string" where
  "processForSort line =
     (if prefix ''...'' line \<or> (case line of [] \<Rightarrow> True | c # _ \<Rightarrow> is_word_char c)
      then ''A'' @ [CHR 0x0A] @ strip_non_word line
      else ''B'' @ [CHR 0x0A]
           @ strip_non_word (case files_capture line of Some m \<Rightarrow> m | None \<Rightarrow> line))"

text \<open>
  The sort key of an import line, \<^verbatim>\<open>a.replace(/.+from/, "")\<close>. A match at the start of
  \<open>s\<close> ends after the last \<^verbatim>\<open>from\<close> that lies in the run of code units up to the first
  line terminator and has at least one code unit before it; \<open>match_dotplus_from\<close> gives
  that end. The first match in a line is the one at the leftmost position that has one,
  and it is removed.
\<close>

definition match_dotplus_from :: "string \<Rightarrow> nat option" where
  "match_dotplus_from s =
     find (\<lambda>e. take 4 (drop (e - 4) (dot_run s)) = ''from'')
          (rev [5 ..< Suc (length (dot_run s))])"

fun remove_dotplus_from :: "string \<Rightarrow> string" where
  "remove_dotplus_from [] = []"
| "remove_dotplus_from (c # cs) =
     (case match_dotplus_from (c # cs) of
        Some e \<Rightarrow> drop e (c # cs)
      | None \<Rightarrow> c # remove_dotplus_from cs)"

subsection \<open>Printing an extension\<close>

text \<open>
  Whether a value counts as true in \<^verbatim>\<open>value && ...\<close> and under \<^verbatim>\<open>filter(Boolean)\<close>.
\<close>

fun truthy :: "json \<Rightarrow> bool" where
  "truthy JNull = False"
| "truthy (JBool b) = b"
| "truthy (JNum n) = (n \<noteq> 0)"
| "truthy (JString s) = (s \<noteq> [])"
| "truthy (JArray xs) = True"
| "truthy (JObject kvs) = True"

text \<open>
  \<^verbatim>\<open>s.replace(pat, rep)\<close> for a search string and a replacement without \<^verbatim>\<open>$\<close> patterns:
  the first occurrence is replaced.
\<close>

fun replace_first :: "string \<Rightarrow> string \<Rightarrow> string \<Rightarrow> string" where
  "replace_first pat rep [] = (if pat = [] then rep else [])"
| "replace_first pat rep (c # cs) =
     (if prefix pat (c # cs) then rep @ drop (length pat) (c # cs)
      else c # replace_first pat rep cs)"

text \<open>
  The own property keys of an object come in this order: first the keys that are array
  indices (the decimal numerals without a leading zero of the numbers below \<open>2^32 - 1\<close>)
  in ascending numeric order, then the other keys in the order of their insertion.
\<close>

definition decimal_value :: "string \<Rightarrow> nat" where
  "decimal_value k = foldl (\<lambda>n c. 10 * n + (of_char c - 48)) 0 k"

definition is_array_index :: "string \<Rightarrow> bool" where
  "is_array_index k =
     (k \<noteq> [] \<and> list_all (\<lambda>c. CHR ''0'' \<le> c \<and> c \<le> CHR ''9'') k
      \<and> (k = ''0'' \<or> hd k \<noteq> CHR ''0'') \<and> decimal_value k < 4294967295)"

definition own_property_order :: "(string \<times> 'a) list \<Rightarrow> (string \<times> 'a) list" where
  "own_property_order kvs =
     sort_key (\<lambda>kv. decimal_value (fst kv)) (filter (\<lambda>kv. is_array_index (fst kv)) kvs)
     @ filter (\<lambda>kv. \<not> is_array_index (fst kv)) kvs"

text \<open>
  \<^verbatim>\<open>sortKeys\<close> (package \<^verbatim>\<open>sort-keys\<close>, without options) inserts the properties into a new
  object by the default sort of their keys; the new object lists them in the order of its
  own property keys.
\<close>

definition sortKeys :: "(string \<times> json) list \<Rightarrow> (string \<times> json) list" where
  "sortKeys kvs = own_property_order (sort_key fst kvs)"

text \<open>
  The types of the schemas: rules are a record of rule options or a list of groups with
  an optional comment; an extension has seven optional parts; an entry of
  \<^verbatim>\<open>addons.extensions\<close> is a string or an extension. Values of type \<^verbatim>\<open>unknown\<close> and
  rule options are \<^typ>\<open>json\<close> values.
\<close>

record rule_group =
  comment :: "string option"
  entries :: "(string \<times> json) list"

datatype extension_rules = RulesRecord "(string \<times> json) list" | RulesGroups "rule_group list"

record extension =
  extends :: "string list option"
  ext_files :: "string list option"
  languageOptions :: "json option"
  linterOptions :: "json option"
  plugins :: "(string \<times> string) list option"
  rules :: "extension_rules option"
  settings :: "(string \<times> json) list option"

datatype extension_entry = ExtString string | ExtObject extension

record packageImport =
  source :: string
  specifier :: string
  types :: "bool option"

record eslint_addons =
  beforeLint :: "string option"
  explanations :: "string list"
  extensions :: "extension_entry list"
  eslint_ignores :: "string list"
  eslint_imports :: "packageImport list"
  eslint_rules :: "extension_rules option"
  eslint_settings :: "(string \<times> json) list option"

text \<open>
  \<^verbatim>\<open>printGroupComment\<close>, \<^verbatim>\<open>printExtensionRules\<close> and \<^verbatim>\<open>printExtension\<close>. In
  \<^verbatim>\<open>printExtension\<close> each part that is undefined or not true is filtered out of the list
  before it is joined by spaces; \<^verbatim>\<open>plugins\<close> is not printed.
\<close>

definition printGroupComment :: "string option \<Rightarrow> string" where
  "printGroupComment c =
     (case c of
        None \<Rightarrow> []
      | Some s \<Rightarrow>
          if s = [] then []
          else [CHR 0x0A, CHR 0x0A] @ ''// ''
               @ replaceAll_char (CHR 0x0A) ([CHR 0x0A] @ ''// '') s @ [CHR 0x0A])"

definition printExtensionRules :: "extension_rules \<Rightarrow> string" where
  \<open>printExtensionRules r =
     (case r of
        RulesRecord kvs \<Rightarrow> JSON_stringify (JObject kvs)
      | RulesGroups groups \<Rightarrow>
          join [] ([''{'']
            @ concat (map (\<lambda>group.
                [printGroupComment (comment group)]
                @ map (\<lambda>(ruleName, opts).
                         ''"'' @ ruleName @ ''": '' @ JSON_stringify opts @ '','')
                      (entries group)) groups)
            @ [''}'']))\<close>

definition printExtension :: "extension \<Rightarrow> string" where
  \<open>printExtension e =
     join '' ''
       ([''{'']
        @ (case extends e of None \<Rightarrow> []
           | Some xs \<Rightarrow> [''extends: ['' @ join '', '' xs @ ''],''])
        @ (case ext_files e of None \<Rightarrow> []
           | Some gs \<Rightarrow> [''files: ['' @ join '', '' (map json_quote gs) @ ''],''])
        @ (case languageOptions e of None \<Rightarrow> []
           | Some j \<Rightarrow>
               if truthy j
               then [''languageOptions: ''
                     @ replace_first ''"import.meta.dirname"'' ''import.meta.dirname''
                         (JSON_stringify j) @ '','']
               else [])
        @ (case linterOptions e of None \<Rightarrow> []
           | Some j \<Rightarrow> if truthy j then [''linterOptions: '' @ JSON_stringify j] else [])
        @ (case rules e of None \<Rightarrow> []
           | Some r \<Rightarrow> [''rules: '' @ printExtensionRules r @ '',''])
        @ (case settings e of None \<Rightarrow> []
           | Some s \<Rightarrow> [''settings: '' @ JSON_stringify (JObject (sortKeys s)) @ '',''])
        @ [''}''])\<close>

text \<open>
  The parts of \<^verbatim>\<open>produce\<close>, in the order of the source. \<^verbatim>\<open>localeCompare\<close> compares
  strings by the collation of the runtime; it is modelled as the comparison of collation
  keys, \<open>collate\<close> being a parameter that maps a string to its key in some linear order.
  The sort with a comparison function is stable, so it is \<^const>\<open>sort_key\<close>.
\<close>

definition configFileName :: "options \<Rightarrow> string" where
  "configFileName opts =
     (if options_type opts = Some ''commonjs'' then ''eslint.config.mjs'' else ''eslint.config.js'')"

definition fileExtensions :: "options \<Rightarrow> string" where
  "fileExtensions opts =
     (if options_type opts = Some ''commonjs'' then ''js,mjs,ts'' else ''js,ts'')"

definition explanation :: "eslint_addons \<Rightarrow> string" where
  "explanation a =
     (if length (explanations a) > 0
      then join [] (map (\<lambda>e. ''/*'' @ [CHR 0x0A] @ e @ [CHR 0x0A] @ ''*/'' @ [CHR 0x0A])
                       (explanations a)) @ [CHR 0x0A]
      else [])"

definition unsorted_importLines :: "eslint_addons \<Rightarrow> string list" where
  \<open>unsorted_importLines a =
     [''import eslint from "@eslint/js";'',
      ''import tseslint from "typescript-eslint";'']
     @ map (\<lambda>p. ''import '' @ specifier p @ '' from "'' @ source p @ ''"'') (eslint_imports a)\<close>

definition importLines :: "(string \<Rightarrow> 'k::linorder) \<Rightarrow> eslint_addons \<Rightarrow> string list" where
  "importLines collate a =
     sort_key (\<lambda>l. collate (remove_dotplus_from l)) (unsorted_importLines a)"

definition ignoreLines :: "eslint_addons \<Rightarrow> string list" where
  "ignoreLines a =
     sort (map json_quote ([''lib'', ''node_modules'', ''pnpm-lock.yaml''] @ eslint_ignores a))"

text \<open>
  \<^verbatim>\<open>options.bin\<close> is an object (its values are taken), a string, or undefined; empty
  strings and undefined are filtered out, the rest is sorted and then put through a Set.
\<close>

definition allowDefaultProject :: "options \<Rightarrow> string list" where
  "allowDefaultProject opts =
     new_Set (sort (filter (\<lambda>s. s \<noteq> [])
       ([''*.config.*s'']
        @ (case options_bin opts of
             None \<Rightarrow> []
           | Some (BinString s) \<Rightarrow> [s]
           | Some (BinRecord kvs) \<Rightarrow> map snd kvs))))"

definition main_extension :: "eslint_addons \<Rightarrow> options \<Rightarrow> extension" where
  "main_extension a opts =
     \<lparr> extends = Some [''tseslint.configs.strictTypeChecked'',
                       ''tseslint.configs.stylisticTypeChecked''],
       ext_files = Some [''**/*.{'' @ fileExtensions opts @ ''}''],
       languageOptions = Some (JObject
         [(''parserOptions'', JObject
            [(''projectService'', JObject
               [(''allowDefaultProject'', json_strings (allowDefaultProject opts))]),
             (''tsconfigRootDir'', JString ''import.meta.dirname'')])]),
       linterOptions = None,
       plugins = None,
       rules = eslint_rules a,
       settings = eslint_settings a \<rparr>"

definition mjs_extension :: extension where
  "mjs_extension =
     \<lparr> extends = None,
       ext_files = Some [''*.mjs''],
       languageOptions = Some (JObject [(''sourceType'', JString ''module'')]),
       linterOptions = None, plugins = None, rules = None, settings = None \<rparr>"

definition unsorted_extensionLines :: "eslint_addons \<Rightarrow> options \<Rightarrow> string list" where
  "unsorted_extensionLines a opts =
     [printExtension (main_extension a opts)]
     @ (if options_type opts = Some ''commonjs'' then [printExtension mjs_extension] else [])
     @ map (\<lambda>e. case e of ExtString s \<Rightarrow> s | ExtObject x \<Rightarrow> printExtension x) (extensions a)"

definition extensionLines ::
  "(string \<Rightarrow> 'k::linorder) \<Rightarrow> eslint_addons \<Rightarrow> options \<Rightarrow> string list" where
  "extensionLines collate a opts =
     sort_key (\<lambda>l. collate (processForSort l)) (unsorted_extensionLines a opts)"

text \<open>
  The text of the config file and the \<^verbatim>\<open>files\<close> property of the value \<^verbatim>\<open>produce\<close>
  returns. The indentation in the template is a tab.
\<close>

definition eslint_config_text ::
  "(string \<Rightarrow> 'k::linorder) \<Rightarrow> eslint_addons \<Rightarrow> options \<Rightarrow> string" where
  "eslint_config_text collate a opts =
     explanation a @ join [CHR 0x0A] (importLines collate a)
     @ [CHR 0x0A, CHR 0x0A] @ ''export default tseslint.config('' @ [CHR 0x0A, CHR 0x09]
     @ ''{ ignores: ['' @ join '', '' (ignoreLines a) @ ''] },'' @ [CHR 0x0A, CHR 0x09]
     @ printExtension \<lparr> extends = None, ext_files = None, languageOptions = None,
         linterOptions = Some (JObject [(''reportUnusedDisableDirectives'', JString ''error'')]),
         plugins = None, rules = None, settings = None \<rparr>
     @ '','' @ [CHR 0x0A, CHR 0x09] @ ''eslint.configs.recommended,'' @ [CHR 0x0A, CHR 0x09]
     @ join '','' (extensionLines collate a opts) @ [CHR 0x0A] @ '');''"

definition blockESLint_files ::
  "(string \<Rightarrow> 'k::linorder) \<Rightarrow> eslint_addons \<Rightarrow> options \<Rightarrow> (string \<times> string) list" where
  "blockESLint_files collate a opts = [(configFileName opts, eslint_config_text collate a opts)]"

section \<open>Validation of the CSpell addons\<close>

text \<open>
  The addons are declared as \<^verbatim>\<open>z.array(z.string()).default([])\<close>: an undefined value
  becomes the empty list, any other value has to be an array of strings.
\<close>

fun as_string :: "json \<Rightarrow> string option" where
  "as_string (JString s) = Some s"
| "as_string _ = None"

definition as_string_array :: "json \<Rightarrow> string list option" where
  "as_string_array j = (case j of JArray xs \<Rightarrow> those (map as_string xs) | _ \<Rightarrow> None)"

definition zStringArrayDefault :: "json option \<Rightarrow> string list option" where
  "zStringArrayDefault v = (case v of None \<Rightarrow> Some [] | Some j \<Rightarrow> as_string_array j)"

text \<open>
  Modelled from the spec: the options resolver that \<^verbatim>\<open>base.createBlock\<close> puts in front of
  \<^verbatim>\<open>produce\<close> is not among the sources. After the spec, it validates the addons given to
  a block against the block's schema; a failure is fatal to that block's production and
  is a typed configuration error that names the block and the violating fields.
\<close>

datatype config_error = ConfigError string "string list"

definition blockCSpell_addons :: "(string \<times> json) list \<Rightarrow> config_error + cspell_addons" where
  "blockCSpell_addons raw =
     (case (zStringArrayDefault (map_of raw ''ignores''),
            zStringArrayDefault (map_of raw ''words'')) of
        (Some igs, Some ws) \<Rightarrow> Inr \<lparr> ignores = igs, words = ws \<rparr>
      | _ \<Rightarrow>
          Inl (ConfigError ''CSpell''
                 (filter (\<lambda>f. zStringArrayDefault (map_of raw f) = None)
                         [''ignores'', ''words''])))"

definition blockCSpell_resolve_and_produce ::
  "(string list \<Rightarrow> json) \<Rightarrow> options \<Rightarrow> (string \<times> json) list \<Rightarrow> config_error + contribution" where
  "blockCSpell_resolve_and_produce getPackageDependencies opts raw =
     (case blockCSpell_addons raw of
        Inl e \<Rightarrow> Inl e
      | Inr a \<Rightarrow> Inr (blockCSpell_produce getPackageDependencies opts a))"

section \<open>Reading the usage section of a readme\<close>

text \<open>\<^verbatim>\<open>haystack.indexOf(needle)\<close>: the position of the first occurrence, if any.\<close>

fun indexOf :: "string \<Rightarrow> string \<Rightarrow> nat option" where
  "indexOf needle [] = (if needle = [] then Some 0 else None)"
| "indexOf needle (c # cs) =
     (if prefix needle (c # cs) then Some 0 else map_option Suc (indexOf needle cs))"

text \<open>The white space that \<^verbatim>\<open>trim()\<close> removes, among the code units below 256.\<close>

definition is_white_space :: "char \<Rightarrow> bool" where
  "is_white_space c =
     (c = CHR 0x09 \<or> c = CHR 0x0A \<or> c = CHR 0x0B \<or> c = CHR 0x0C \<or> c = CHR 0x0D
      \<or> c = CHR 0x20 \<or> c = CHR 0xA0)"

definition trim :: "string \<Rightarrow> string" where
  "trim s = rev (dropWhile is_white_space (rev (dropWhile is_white_space s)))"

text \<open>
  Modelled from the spec: \<^verbatim>\<open>readUsageFromReadme\<close> is not among the sources, only its tests
  are. After the spec, it locates the heading \<^verbatim>\<open>## Usage\<close> in the document text and returns
  the trimmed content up to the next \<^verbatim>\<open>## Development\<close> heading; it returns nothing if
  the heading is missing, the next heading is missing, or the captured span is empty or
  only white space.
\<close>

definition readUsageFromReadme :: "string \<Rightarrow> string option" where
  "readUsageFromReadme readme =
     (case indexOf ''## Usage'' readme of
        None \<Rightarrow> None
      | Some i \<Rightarrow>
          let rest = drop (i + length ''## Usage'') readme
          in (case indexOf ''## Development'' rest of
                None \<Rightarrow> None
              | Some j \<Rightarrow>
                  let usage = trim (take j rest)
                  in if usage = [] then None else Some usage))"

section \<open>The intake of the Vitest block\<close>

text \<open>
  The files given to an intake: a file with its text, or a directory of further entries.
\<close>

datatype file_entry = File string | Directory "(string \<times> file_entry) list"

record coverage_addons =
  coverage_exclude :: "string list option"
  coverage_include :: "string list option"

record vitest_addons =
  coverage :: "coverage_addons option"
  exclude :: "string list option"

text \<open>
  A property that may be missing and otherwise has to be an array of strings: the outer
  \<open>None\<close> is a schema violation, \<open>Some None\<close> a missing property.
\<close>

definition optional_string_array :: "json \<Rightarrow> string \<Rightarrow> string list option option" where
  "optional_string_array j k =
     (case get_property j k of
        None \<Rightarrow> Some None
      | Some v \<Rightarrow> map_option Some (as_string_array v))"

definition zCoverage :: "json \<Rightarrow> coverage_addons option" where
  "zCoverage j =
     (case j of
        JObject kvs \<Rightarrow>
          (case (optional_string_array j ''exclude'', optional_string_array j ''include'') of
             (Some e, Some i) \<Rightarrow> Some \<lparr> coverage_exclude = e, coverage_include = i \<rparr>
           | _ \<Rightarrow> None)
      | _ \<Rightarrow> None)"

definition zTest :: "json \<Rightarrow> vitest_addons option" where
  "zTest j =
     (case j of
        JObject kvs \<Rightarrow>
          (case (case get_property j ''coverage'' of
                   None \<Rightarrow> Some None
                 | Some c \<Rightarrow> map_option Some (zCoverage c),
                 optional_string_array j ''exclude'') of
             (Some c, Some e) \<Rightarrow> Some \<lparr> coverage = c, exclude = e \<rparr>
           | _ \<Rightarrow> None)
      | _ \<Rightarrow> None)"

text \<open>
  Modelled from the spec: \<^verbatim>\<open>blockVitest\<close> is not among the sources, only its tests are.
  After the spec, the intake reads \<^verbatim>\<open>vitest.config.ts\<close> and maps it back to the addons the
  block would have produced it from; an absent file, text that does not parse, and parsed
  content of another shape all give nothing. Reading the argument of the
  \<^verbatim>\<open>defineConfig\<close> call out of the text is the parameter \<open>parse_defineConfig\<close>, which
  gives nothing for text without such a call or with an argument that does not parse.
  The recognised shape is an object with a \<^verbatim>\<open>test\<close> object whose \<^verbatim>\<open>coverage.exclude\<close>,
  \<^verbatim>\<open>coverage.include\<close> and \<^verbatim>\<open>exclude\<close>, where present, are arrays of strings.
\<close>

definition blockVitest_intake ::
  "(string \<Rightarrow> json option) \<Rightarrow> (string \<times> file_entry) list \<Rightarrow> vitest_addons option" where
  "blockVitest_intake parse_defineConfig fs =
     (case map_of fs ''vitest.config.ts'' of
        Some (File text) \<Rightarrow>
          (case parse_defineConfig text of
             None \<Rightarrow> None
           | Some arg \<Rightarrow>
               (case get_property arg ''test'' of
                  None \<Rightarrow> None
                | Some t \<Rightarrow> zTest t))
      | _ \<Rightarrow> None)"

section \<open>Properties of the built-ins\<close>

text \<open>
  A Set built from a list has the elements of the list, each once.
\<close>

lemma set_foldl_set_add: "set (foldl set_add acc xs) = set acc \<union> set xs"
  by (induction xs arbitrary: acc) (auto simp: set_add_def)

lemma distinct_foldl_set_add: "distinct acc \<Longrightarrow> distinct (foldl set_add acc xs)"
  by (induction xs arbitrary: acc) (auto simp: set_add_def)

lemma set_new_Set: "set (new_Set xs) = set xs"
  by (simp add: new_Set_def set_foldl_set_add)

lemma distinct_new_Set: "distinct (new_Set xs)"
  by (simp add: new_Set_def distinct_foldl_set_add)

lemma set_allWords:
  "set (allWords opts a) =
     (case options_words opts of None \<Rightarrow> {} | Some ws \<Rightarrow> set ws) \<union> set (words a)"
  by (cases "options_words opts") (simp_all add: allWords_def set_new_Set)

lemma allWords_sorted_distinct: "sorted (allWords opts a) \<and> distinct (allWords opts a)"
  by (simp add: allWords_def distinct_new_Set)

lemma files_blockCSpell_produce:
  "files (blockCSpell_produce deps opts a) =
     [(''cspell.json'', JSON_stringify (cspell_json (ignorePaths a) (allWords opts a)))]"
  by (simp add: blockCSpell_produce_def cspell_contribution_def)

text \<open>
  Claim C5. For every \<^verbatim>\<open>options.words\<close> and \<^verbatim>\<open>addons.words\<close>, the \<^verbatim>\<open>words\<close> field of the
  generated \<^verbatim>\<open>cspell.json\<close> is the union of both lists, without duplicates and sorted
  (the one sorted list of the union's elements), and the \<^verbatim>\<open>words\<close> key is left out of
  the object when that union is empty.
\<close>

theorem cspell_words_field:
  "files (blockCSpell_produce deps opts a) =
     [(''cspell.json'', JSON_stringify (cspell_json (ignorePaths a) (allWords opts a)))]
   \<and> get_property (cspell_json (ignorePaths a) (allWords opts a)) ''words'' =
     (if (case options_words opts of None \<Rightarrow> {} | Some ws \<Rightarrow> set ws) \<union> set (words a) = {}
      then None
      else Some (json_strings (sorted_list_of_set
        ((case options_words opts of None \<Rightarrow> {} | Some ws \<Rightarrow> set ws) \<union> set (words a)))))"
proof -
  let ?U = "(case options_words opts of None \<Rightarrow> {} | Some ws \<Rightarrow> set ws) \<union> set (words a)"
  have fin: "finite ?U" by (cases "options_words opts") simp_all
  have "sorted (allWords opts a) \<and> distinct (allWords opts a) \<and> set (allWords opts a) = ?U"
    using allWords_sorted_distinct set_allWords by blast
  then have eq: "allWords opts a = sorted_list_of_set ?U"
    using fin by (metis sorted_list_of_set.idem_if_sorted_distinct)
  have emp: "(length (allWords opts a) \<noteq> 0) = (?U \<noteq> {})"
    using set_allWords [of opts a] by (metis length_0_conv set_empty)
  have "get_property (cspell_json (ignorePaths a) (allWords opts a)) ''words'' =
     (if ?U = {} then None else Some (json_strings (sorted_list_of_set ?U)))"
  proof (cases "?U = {}")
    case True
    then show ?thesis
      using emp by (simp add: cspell_json_def get_property_def)
  next
    case False
    then show ?thesis
      using emp eq by (simp add: cspell_json_def get_property_def)
  qed
  then show ?thesis
    using files_blockCSpell_produce by simp
qed

lemma eslint_text_ignores:
  "\<exists>pre post. eslint_config_text collate e opts =
     pre @ ''{ ignores: ['' @ join '', '' (ignoreLines e) @ ''] },'' @ post"
proof -
  have "eslint_config_text collate e opts =
     (explanation e @ join [CHR 0x0A] (importLines collate e)
      @ [CHR 0x0A, CHR 0x0A] @ ''export default tseslint.config('' @ [CHR 0x0A, CHR 0x09])
     @ ''{ ignores: ['' @ join '', '' (ignoreLines e) @ ''] },''
     @ ([CHR 0x0A, CHR 0x09]
     @ printExtension \<lparr> extends = None, ext_files = None, languageOptions = None,
         linterOptions = Some (JObject [(''reportUnusedDisableDirectives'', JString ''error'')]),
         plugins = None, rules = None, settings = None \<rparr>
     @ '','' @ [CHR 0x0A, CHR 0x09] @ ''eslint.configs.recommended,'' @ [CHR 0x0A, CHR 0x09]
     @ join '','' (extensionLines collate e opts) @ [CHR 0x0A] @ '');'')"
    by (simp add: eslint_config_text_def)
  then show ?thesis by blast
qed

text \<open>
  Claim C1, as amended. The \<^verbatim>\<open>ignorePaths\<close> list of \<^verbatim>\<open>cspell.json\<close> is sorted and holds the
  five base entries and every entry of \<^verbatim>\<open>addons.ignores\<close>, each as often as it was given.
  The \<^verbatim>\<open>ignores\<close> list of the ESLint config holds the JSON string literals of the three
  base entries and of every entry of \<^verbatim>\<open>addons.ignores\<close>, each as often as it was given,
  in the sorted order of these literals. Duplicates are not removed from either list.
\<close>

theorem ignore_lists_sorted_keeping_duplicates:
  "get_property (cspell_json (ignorePaths a) (allWords opts a)) ''ignorePaths''
     = Some (json_strings (ignorePaths a))
   \<and> sorted (ignorePaths a)
   \<and> mset (ignorePaths a) = mset base_ignorePaths + mset (ignores a)
   \<and> (\<exists>pre post. eslint_config_text collate e opts =
         pre @ ''{ ignores: ['' @ join '', '' (ignoreLines e) @ ''] },'' @ post)
   \<and> sorted (ignoreLines e)
   \<and> mset (ignoreLines e) =
       image_mset json_quote (mset [''lib'', ''node_modules'', ''pnpm-lock.yaml''] + mset (eslint_ignores e))"
proof -
  have 1: "get_property (cspell_json (ignorePaths a) (allWords opts a)) ''ignorePaths''
     = Some (json_strings (ignorePaths a))"
    by (simp add: cspell_json_def get_property_def)
  have 2: "sorted (ignorePaths a)"
    unfolding ignorePaths_def by (rule sorted_sort)
  have 3: "mset (ignorePaths a) = mset base_ignorePaths + mset (ignores a)"
    unfolding ignorePaths_def by (simp only: mset_sort mset_append)
  have 4: "sorted (ignoreLines e)"
    unfolding ignoreLines_def by (rule sorted_sort)
  have 5: "mset (ignoreLines e) =
       image_mset json_quote (mset [''lib'', ''node_modules'', ''pnpm-lock.yaml''] + mset (eslint_ignores e))"
    unfolding ignoreLines_def by (simp only: mset_sort mset_map mset_append)
  show ?thesis
    using 1 2 3 4 5 eslint_text_ignores by blast
qed

text \<open>
  Claim C1, as stated, fails: with \<^verbatim>\<open>addons.ignores = ["lib"]\<close> both lists name
  \<^verbatim>\<open>lib\<close> twice, since \<^verbatim>\<open>lib\<close> is a base entry of both.
\<close>

theorem ignore_lists_duplicate_lib:
  \<open>JSON_stringify (cspell_json (ignorePaths \<lparr> ignores = [''lib''], words = [] \<rparr>)
       (allWords \<lparr> options_bin = None, options_type = None, options_words = None \<rparr>
                 \<lparr> ignores = [''lib''], words = [] \<rparr>))
     = ''{"dictionaries":["npm","node","typescript"],"ignorePaths":[".github","CHANGELOG.md","lib","lib","node_modules","pnpm-lock.yaml"]}''
   \<and> \<not> distinct (ignorePaths \<lparr> ignores = [''lib''], words = [] \<rparr>)
   \<and> ignoreLines \<lparr> beforeLint = None, explanations = [], extensions = [],
         eslint_ignores = [''lib''], eslint_imports = [], eslint_rules = None,
         eslint_settings = None \<rparr>
       = [''"lib"'', ''"lib"'', ''"node_modules"'', ''"pnpm-lock.yaml"'']\<close>
  by (simp add: cspell_json_def ignorePaths_def base_ignorePaths_def allWords_def new_Set_def
      json_strings_def json_quote_def json_escape_def ignoreLines_def)

section \<open>The ESLint config file\<close>

lemma extensionLines_mset:
  "mset (extensionLines collate a opts) = mset (unsorted_extensionLines a opts)"
  unfolding extensionLines_def by (simp only: mset_sort)

text \<open>\<^verbatim>\<open>sortKeys\<close> on keys of both kinds: the array indices come first, by their number.\<close>

lemma sortKeys_array_indices_first:
  "sortKeys [(''b'', JNull), (''10'', JNull), (''a'', JNull), (''9'', JNull), (''01'', JNull)]
     = [(''9'', JNull), (''10'', JNull), (''01'', JNull), (''a'', JNull), (''b'', JNull)]"
  by (simp add: sortKeys_def own_property_order_def is_array_index_def decimal_value_def)

lemma printExtension_mjs:
  \<open>printExtension mjs_extension = ''{ files: ["*.mjs"], languageOptions: {"sourceType":"module"}, }''\<close>
  by (simp add: printExtension_def mjs_extension_def json_quote_def json_escape_def)

text \<open>
  The printed main extension: the list of extended configs, the files glob of the type,
  the language options with \<^verbatim>\<open>import.meta.dirname\<close> taken out of its quotes, and the rules
  and settings of the addons where they are given.
\<close>

lemma printExtension_main:
  \<open>printExtension (main_extension a opts) =
     ''{ extends: [tseslint.configs.strictTypeChecked, tseslint.configs.stylisticTypeChecked], ''
     @ (if options_type opts = Some ''commonjs''
        then ''files: ["**/*.{js,mjs,ts}"], '' else ''files: ["**/*.{js,ts}"], '')
     @ ''languageOptions: ''
     @ replace_first ''"import.meta.dirname"'' ''import.meta.dirname''
         (''{"parserOptions":{"projectService":{"allowDefaultProject":''
          @ JSON_stringify (json_strings (allowDefaultProject opts))
          @ ''},"tsconfigRootDir":"import.meta.dirname"}}'')
     @ '',''
     @ (case eslint_rules a of None \<Rightarrow> []
        | Some r \<Rightarrow> '' rules: '' @ printExtensionRules r @ '','')
     @ (case eslint_settings a of None \<Rightarrow> []
        | Some s \<Rightarrow> '' settings: '' @ JSON_stringify (JObject (sortKeys s)) @ '','')
     @ '' }''\<close>
  by (cases "eslint_rules a"; cases "eslint_settings a")
     (simp_all add: printExtension_def main_extension_def fileExtensions_def json_quote_def
        json_escape_def)

lemma linterOptions_block:
  \<open>printExtension \<lparr> extends = None, ext_files = None, languageOptions = None,
         linterOptions = Some (JObject [(''reportUnusedDisableDirectives'', JString ''error'')]),
         plugins = None, rules = None, settings = None \<rparr>
    = ''{ linterOptions: {"reportUnusedDisableDirectives":"error"} }''\<close>
  by (simp add: printExtension_def json_quote_def json_escape_def)

lemma blockESLint_files_text:
  \<open>blockESLint_files collate a opts =
     [(if options_type opts = Some ''commonjs'' then ''eslint.config.mjs'' else ''eslint.config.js'',
       explanation a @ join [CHR 0x0A] (importLines collate a) @ [CHR 0x0A, CHR 0x0A]
       @ ''export default tseslint.config('' @ [CHR 0x0A, CHR 0x09]
       @ ''{ ignores: ['' @ join '', '' (ignoreLines a) @ ''] },'' @ [CHR 0x0A, CHR 0x09]
       @ ''{ linterOptions: {"reportUnusedDisableDirectives":"error"} },'' @ [CHR 0x0A, CHR 0x09]
       @ ''eslint.configs.recommended,'' @ [CHR 0x0A, CHR 0x09]
       @ join '','' (extensionLines collate a opts) @ [CHR 0x0A] @ '');'')]\<close>
  by (simp add: blockESLint_files_def eslint_config_text_def configFileName_def linterOptions_block)

text \<open>
  The file for addons that add nothing and options without \<^verbatim>\<open>bin\<close>, for both types, with
  the sort keys compared by code units.
\<close>

lemma allowDefaultProject_no_bin:
  "allowDefaultProject \<lparr> options_bin = None, options_type = t, options_words = w \<rparr> = [''*.config.*s'']"
  by (simp add: allowDefaultProject_def new_Set_def set_add_def)

lemma printExtension_main_commonjs:
  \<open>printExtension (main_extension
      \<lparr> beforeLint = None, explanations = [], extensions = [], eslint_ignores = [],
        eslint_imports = [], eslint_rules = None, eslint_settings = None \<rparr>
      \<lparr> options_bin = None, options_type = Some ''commonjs'', options_words = None \<rparr>) =
     ''{ extends: [tseslint.configs.strictTypeChecked, tseslint.configs.stylisticTypeChecked], files: ["**/*.{js,mjs,ts}"], languageOptions: {"parserOptions":{"projectService":{"allowDefaultProject":["*.config.*s"]},"tsconfigRootDir":import.meta.dirname}}, }''\<close>
  by (simp add: printExtension_main allowDefaultProject_no_bin json_strings_def json_quote_def
      json_escape_def)

lemma printExtension_main_module:
  \<open>printExtension (main_extension
      \<lparr> beforeLint = None, explanations = [], extensions = [], eslint_ignores = [],
        eslint_imports = [], eslint_rules = None, eslint_settings = None \<rparr>
      \<lparr> options_bin = None, options_type = Some ''module'', options_words = None \<rparr>) =
     ''{ extends: [tseslint.configs.strictTypeChecked, tseslint.configs.stylisticTypeChecked], files: ["**/*.{js,ts}"], languageOptions: {"parserOptions":{"projectService":{"allowDefaultProject":["*.config.*s"]},"tsconfigRootDir":import.meta.dirname}}, }''\<close>
  by (simp add: printExtension_main allowDefaultProject_no_bin json_strings_def json_quote_def
      json_escape_def)

lemma processForSort_main_commonjs:
  \<open>processForSort ''{ extends: [tseslint.configs.strictTypeChecked, tseslint.configs.stylisticTypeChecked], files: ["**/*.{js,mjs,ts}"], languageOptions: {"parserOptions":{"projectService":{"allowDefaultProject":["*.config.*s"]},"tsconfigRootDir":import.meta.dirname}}, }''
    = ''B'' @ [CHR 0x0A] @ ''jsmjstslanguageOptionsparserOptionsprojectServiceallowDefaultProjectconfigstsconfigRootDirimportmetadirname''\<close>
  by code_simp

lemma processForSort_mjs:
  \<open>processForSort ''{ files: ["*.mjs"], languageOptions: {"sourceType":"module"}, }''
    = ''B'' @ [CHR 0x0A] @ ''mjslanguageOptionssourceTypemodule''\<close>
  by code_simp

lemma importLines_default:
  \<open>importLines id
      \<lparr> beforeLint = None, explanations = [], extensions = [], eslint_ignores = [],
        eslint_imports = [], eslint_rules = None, eslint_settings = None \<rparr>
    = [''import eslint from "@eslint/js";'', ''import tseslint from "typescript-eslint";'']\<close>
  by (simp add: importLines_def unsorted_importLines_def match_dotplus_from_def dot_run_def
      is_line_terminator_def)

lemma eslint_config_commonjs:
  \<open>blockESLint_files id
      \<lparr> beforeLint = None, explanations = [], extensions = [], eslint_ignores = [],
        eslint_imports = [], eslint_rules = None, eslint_settings = None \<rparr>
      \<lparr> options_bin = None, options_type = Some ''commonjs'', options_words = None \<rparr>
    = [(''eslint.config.mjs'',
        ''import eslint from "@eslint/js";'' @ [CHR 0x0A]
        @ ''import tseslint from "typescript-eslint";'' @ [CHR 0x0A, CHR 0x0A]
        @ ''export default tseslint.config('' @ [CHR 0x0A, CHR 0x09]
        @ ''{ ignores: ["lib", "node_modules", "pnpm-lock.yaml"] },'' @ [CHR 0x0A, CHR 0x09]
        @ ''{ linterOptions: {"reportUnusedDisableDirectives":"error"} },'' @ [CHR 0x0A, CHR 0x09]
        @ ''eslint.configs.recommended,'' @ [CHR 0x0A, CHR 0x09]
        @ ''{ extends: [tseslint.configs.strictTypeChecked, tseslint.configs.stylisticTypeChecked], files: ["**/*.{js,mjs,ts}"], languageOptions: {"parserOptions":{"projectService":{"allowDefaultProject":["*.config.*s"]},"tsconfigRootDir":import.meta.dirname}}, },''
        @ ''{ files: ["*.mjs"], languageOptions: {"sourceType":"module"}, }'' @ [CHR 0x0A]
        @ '');'')]\<close>
proof -
  let ?a = "\<lparr> beforeLint = None, explanations = [], extensions = [], eslint_ignores = [],
        eslint_imports = [], eslint_rules = None, eslint_settings = None \<rparr>"
  let ?o = "\<lparr> options_bin = None, options_type = Some ''commonjs'', options_words = None \<rparr>"
  have e: \<open>extensionLines id ?a ?o =
     [''{ extends: [tseslint.configs.strictTypeChecked, tseslint.configs.stylisticTypeChecked], files: ["**/*.{js,mjs,ts}"], languageOptions: {"parserOptions":{"projectService":{"allowDefaultProject":["*.config.*s"]},"tsconfigRootDir":import.meta.dirname}}, }'',
      ''{ files: ["*.mjs"], languageOptions: {"sourceType":"module"}, }'']\<close>
    unfolding extensionLines_def unsorted_extensionLines_def printExtension_main_commonjs
      printExtension_mjs
    by (simp add: processForSort_main_commonjs processForSort_mjs)
  have i: \<open>ignoreLines ?a = [''"lib"'', ''"node_modules"'', ''"pnpm-lock.yaml"'']\<close>
    by (simp add: ignoreLines_def json_quote_def json_escape_def)
  have x: "explanation ?a = []"
    by (simp add: explanation_def)
  show ?thesis
    unfolding blockESLint_files_def eslint_config_text_def e i x importLines_default
      linterOptions_block
    by (simp add: configFileName_def)
qed

lemma eslint_config_module:
  \<open>blockESLint_files id
      \<lparr> beforeLint = None, explanations = [], extensions = [], eslint_ignores = [],
        eslint_imports = [], eslint_rules = None, eslint_settings = None \<rparr>
      \<lparr> options_bin = None, options_type = Some ''module'', options_words = None \<rparr>
    = [(''eslint.config.js'',
        ''import eslint from "@eslint/js";'' @ [CHR 0x0A]
        @ ''import tseslint from "typescript-eslint";'' @ [CHR 0x0A, CHR 0x0A]
        @ ''export default tseslint.config('' @ [CHR 0x0A, CHR 0x09]
        @ ''{ ignores: ["lib", "node_modules", "pnpm-lock.yaml"] },'' @ [CHR 0x0A, CHR 0x09]
        @ ''{ linterOptions: {"reportUnusedDisableDirectives":"error"} },'' @ [CHR 0x0A, CHR 0x09]
        @ ''eslint.configs.recommended,'' @ [CHR 0x0A, CHR 0x09]
        @ ''{ extends: [tseslint.configs.strictTypeChecked, tseslint.configs.stylisticTypeChecked], files: ["**/*.{js,ts}"], languageOptions: {"parserOptions":{"projectService":{"allowDefaultProject":["*.config.*s"]},"tsconfigRootDir":import.meta.dirname}}, }'' @ [CHR 0x0A]
        @ '');'')]\<close>
proof -
  let ?a = "\<lparr> beforeLint = None, explanations = [], extensions = [], eslint_ignores = [],
        eslint_imports = [], eslint_rules = None, eslint_settings = None \<rparr>"
  let ?o = "\<lparr> options_bin = None, options_type = Some ''module'', options_words = None \<rparr>"
  have e: \<open>extensionLines id ?a ?o =
     [''{ extends: [tseslint.configs.strictTypeChecked, tseslint.configs.stylisticTypeChecked], files: ["**/*.{js,ts}"], languageOptions: {"parserOptions":{"projectService":{"allowDefaultProject":["*.config.*s"]},"tsconfigRootDir":import.meta.dirname}}, }'']\<close>
    unfolding extensionLines_def unsorted_extensionLines_def printExtension_main_module
      printExtension_mjs
    by simp
  have i: \<open>ignoreLines ?a = [''"lib"'', ''"node_modules"'', ''"pnpm-lock.yaml"'']\<close>
    by (simp add: ignoreLines_def json_quote_def json_escape_def)
  have x: "explanation ?a = []"
    by (simp add: explanation_def)
  show ?thesis
    unfolding blockESLint_files_def eslint_config_text_def e i x importLines_default
      linterOptions_block
    by (simp add: configFileName_def)
qed

text \<open>
  Claim C9. The ESLint block emits exactly one file. For \<^verbatim>\<open>options.type\<close> equal to
  \<^verbatim>\<open>"commonjs"\<close> it is \<^verbatim>\<open>eslint.config.mjs\<close>, the main extension is printed with the
  files glob \<^verbatim>\<open>**/*.{js,mjs,ts}\<close>, and the lines of the extension list are the main
  extension, the block that sets \<^verbatim>\<open>sourceType\<close> to \<^verbatim>\<open>"module"\<close> for \<^verbatim>\<open>*.mjs\<close>, and the
  extensions of the addons. For every other type it is \<^verbatim>\<open>eslint.config.js\<close>, the main
  extension is printed with the files glob \<^verbatim>\<open>**/*.{js,ts}\<close>, and the lines are the main
  extension and the extensions of the addons only. The text of the file is given in
  full, with the extension lines joined by commas at its end, and the two files for addons
  that add nothing are given letter by letter.
\<close>

theorem eslint_config_file_by_type:
  \<open>blockESLint_files collate a opts =
     [(if options_type opts = Some ''commonjs'' then ''eslint.config.mjs'' else ''eslint.config.js'',
       explanation a @ join [CHR 0x0A] (importLines collate a) @ [CHR 0x0A, CHR 0x0A]
       @ ''export default tseslint.config('' @ [CHR 0x0A, CHR 0x09]
       @ ''{ ignores: ['' @ join '', '' (ignoreLines a) @ ''] },'' @ [CHR 0x0A, CHR 0x09]
       @ ''{ linterOptions: {"reportUnusedDisableDirectives":"error"} },'' @ [CHR 0x0A, CHR 0x09]
       @ ''eslint.configs.recommended,'' @ [CHR 0x0A, CHR 0x09]
       @ join '','' (extensionLines collate a opts) @ [CHR 0x0A] @ '');'')]
   \<and> mset (extensionLines collate a opts) =
     mset ([printExtension (main_extension a opts)]
           @ (if options_type opts = Some ''commonjs''
              then [''{ files: ["*.mjs"], languageOptions: {"sourceType":"module"}, }'']
              else [])
           @ map (\<lambda>e. case e of ExtString s \<Rightarrow> s | ExtObject x \<Rightarrow> printExtension x)
                 (extensions a))
   \<and> ext_files (main_extension a opts) =
     Some [if options_type opts = Some ''commonjs'' then ''**/*.{js,mjs,ts}'' else ''**/*.{js,ts}'']
   \<and> printExtension (main_extension a opts) =
     ''{ extends: [tseslint.configs.strictTypeChecked, tseslint.configs.stylisticTypeChecked], ''
     @ (if options_type opts = Some ''commonjs''
        then ''files: ["**/*.{js,mjs,ts}"], '' else ''files: ["**/*.{js,ts}"], '')
     @ ''languageOptions: ''
     @ replace_first ''"import.meta.dirname"'' ''import.meta.dirname''
         (''{"parserOptions":{"projectService":{"allowDefaultProject":''
          @ JSON_stringify (json_strings (allowDefaultProject opts))
          @ ''},"tsconfigRootDir":"import.meta.dirname"}}'')
     @ '',''
     @ (case eslint_rules a of None \<Rightarrow> []
        | Some r \<Rightarrow> '' rules: '' @ printExtensionRules r @ '','')
     @ (case eslint_settings a of None \<Rightarrow> []
        | Some s \<Rightarrow> '' settings: '' @ JSON_stringify (JObject (sortKeys s)) @ '','')
     @ '' }''
   \<and> blockESLint_files id
      \<lparr> beforeLint = None, explanations = [], extensions = [], eslint_ignores = [],
        eslint_imports = [], eslint_rules = None, eslint_settings = None \<rparr>
      \<lparr> options_bin = None, options_type = Some ''commonjs'', options_words = None \<rparr>
    = [(''eslint.config.mjs'',
        ''import eslint from "@eslint/js";'' @ [CHR 0x0A]
        @ ''import tseslint from "typescript-eslint";'' @ [CHR 0x0A, CHR 0x0A]
        @ ''export default tseslint.config('' @ [CHR 0x0A, CHR 0x09]
        @ ''{ ignores: ["lib", "node_modules", "pnpm-lock.yaml"] },'' @ [CHR 0x0A, CHR 0x09]
        @ ''{ linterOptions: {"reportUnusedDisableDirectives":"error"} },'' @ [CHR 0x0A, CHR 0x09]
        @ ''eslint.configs.recommended,'' @ [CHR 0x0A, CHR 0x09]
        @ ''{ extends: [tseslint.configs.strictTypeChecked, tseslint.configs.stylisticTypeChecked], files: ["**/*.{js,mjs,ts}"], languageOptions: {"parserOptions":{"projectService":{"allowDefaultProject":["*.config.*s"]},"tsconfigRootDir":import.meta.dirname}}, },''
        @ ''{ files: ["*.mjs"], languageOptions: {"sourceType":"module"}, }'' @ [CHR 0x0A]
        @ '');'')]
   \<and> blockESLint_files id
      \<lparr> beforeLint = None, explanations = [], extensions = [], eslint_ignores = [],
        eslint_imports = [], eslint_rules = None, eslint_settings = None \<rparr>
      \<lparr> options_bin = None, options_type = Some ''module'', options_words = None \<rparr>
    = [(''eslint.config.js'',
        ''import eslint from "@eslint/js";'' @ [CHR 0x0A]
        @ ''import tseslint from "typescript-eslint";'' @ [CHR 0x0A, CHR 0x0A]
        @ ''export default tseslint.config('' @ [CHR 0x0A, CHR 0x09]
        @ ''{ ignores: ["lib", "node_modules", "pnpm-lock.yaml"] },'' @ [CHR 0x0A, CHR 0x09]
        @ ''{ linterOptions: {"reportUnusedDisableDirectives":"error"} },'' @ [CHR 0x0A, CHR 0x09]
        @ ''eslint.configs.recommended,'' @ [CHR 0x0A, CHR 0x09]
        @ ''{ extends: [tseslint.configs.strictTypeChecked, tseslint.configs.stylisticTypeChecked], files: ["**/*.{js,ts}"], languageOptions: {"parserOptions":{"projectService":{"allowDefaultProject":["*.config.*s"]},"tsconfigRootDir":import.meta.dirname}}, }'' @ [CHR 0x0A]
        @ '');'')]\<close>
proof (intro conjI)
  show \<open>blockESLint_files collate a opts =
     [(if options_type opts = Some ''commonjs'' then ''eslint.config.mjs'' else ''eslint.config.js'',
       explanation a @ join [CHR 0x0A] (importLines collate a) @ [CHR 0x0A, CHR 0x0A]
       @ ''export default tseslint.config('' @ [CHR 0x0A, CHR 0x09]
       @ ''{ ignores: ['' @ join '', '' (ignoreLines a) @ ''] },'' @ [CHR 0x0A, CHR 0x09]
       @ ''{ linterOptions: {"reportUnusedDisableDirectives":"error"} },'' @ [CHR 0x0A, CHR 0x09]
       @ ''eslint.configs.recommended,'' @ [CHR 0x0A, CHR 0x09]
       @ join '','' (extensionLines collate a opts) @ [CHR 0x0A] @ '');'')]\<close>
    by (rule blockESLint_files_text)
  show \<open>mset (extensionLines collate a opts) =
     mset ([printExtension (main_extension a opts)]
           @ (if options_type opts = Some ''commonjs''
              then [''{ files: ["*.mjs"], languageOptions: {"sourceType":"module"}, }'']
              else [])
           @ map (\<lambda>e. case e of ExtString s \<Rightarrow> s | ExtObject x \<Rightarrow> printExtension x)
                 (extensions a))\<close>
    unfolding extensionLines_mset unsorted_extensionLines_def printExtension_mjs ..
  show \<open>ext_files (main_extension a opts) =
     Some [if options_type opts = Some ''commonjs'' then ''**/*.{js,mjs,ts}'' else ''**/*.{js,ts}'']\<close>
    by (simp add: main_extension_def fileExtensions_def)
  show \<open>printExtension (main_extension a opts) =
     ''{ extends: [tseslint.configs.strictTypeChecked, tseslint.configs.stylisticTypeChecked], ''
     @ (if options_type opts = Some ''commonjs''
        then ''files: ["**/*.{js,mjs,ts}"], '' else ''files: ["**/*.{js,ts}"], '')
     @ ''languageOptions: ''
     @ replace_first ''"import.meta.dirname"'' ''import.meta.dirname''
         (''{"parserOptions":{"projectService":{"allowDefaultProject":''
          @ JSON_stringify (json_strings (allowDefaultProject opts))
          @ ''},"tsconfigRootDir":"import.meta.dirname"}}'')
     @ '',''
     @ (case eslint_rules a of None \<Rightarrow> []
        | Some r \<Rightarrow> '' rules: '' @ printExtensionRules r @ '','')
     @ (case eslint_settings a of None \<Rightarrow> []
        | Some s \<Rightarrow> '' settings: '' @ JSON_stringify (JObject (sortKeys s)) @ '','')
     @ '' }''\<close>
    by (rule printExtension_main)
  show \<open>blockESLint_files id
      \<lparr> beforeLint = None, explanations = [], extensions = [], eslint_ignores = [],
        eslint_imports = [], eslint_rules = None, eslint_settings = None \<rparr>
      \<lparr> options_bin = None, options_type = Some ''commonjs'', options_words = None \<rparr>
    = [(''eslint.config.mjs'',
        ''import eslint from "@eslint/js";'' @ [CHR 0x0A]
        @ ''import tseslint from "typescript-eslint";'' @ [CHR 0x0A, CHR 0x0A]
        @ ''export default tseslint.config('' @ [CHR 0x0A, CHR 0x09]
        @ ''{ ignores: ["lib", "node_modules", "pnpm-lock.yaml"] },'' @ [CHR 0x0A, CHR 0x09]
        @ ''{ linterOptions: {"reportUnusedDisableDirectives":"error"} },'' @ [CHR 0x0A, CHR 0x09]
        @ ''eslint.configs.recommended,'' @ [CHR 0x0A, CHR 0x09]
        @ ''{ extends: [tseslint.configs.strictTypeChecked, tseslint.configs.stylisticTypeChecked], files: ["**/*.{js,mjs,ts}"], languageOptions: {"parserOptions":{"projectService":{"allowDefaultProject":["*.config.*s"]},"tsconfigRootDir":import.meta.dirname}}, },''
        @ ''{ files: ["*.mjs"], languageOptions: {"sourceType":"module"}, }'' @ [CHR 0x0A]
        @ '');'')]\<close>
    by (rule eslint_config_commonjs)
  show \<open>blockESLint_files id
      \<lparr> beforeLint = None, explanations = [], extensions = [], eslint_ignores = [],
        eslint_imports = [], eslint_rules = None, eslint_settings = None \<rparr>
      \<lparr> options_bin = None, options_type = Some ''module'', options_words = None \<rparr>
    = [(''eslint.config.js'',
        ''import eslint from "@eslint/js";'' @ [CHR 0x0A]
        @ ''import tseslint from "typescript-eslint";'' @ [CHR 0x0A, CHR 0x0A]
        @ ''export default tseslint.config('' @ [CHR 0x0A, CHR 0x09]
        @ ''{ ignores: ["lib", "node_modules", "pnpm-lock.yaml"] },'' @ [CHR 0x0A, CHR 0x09]
        @ ''{ linterOptions: {"reportUnusedDisableDirectives":"error"} },'' @ [CHR 0x0A, CHR 0x09]
        @ ''eslint.configs.recommended,'' @ [CHR 0x0A, CHR 0x09]
        @ ''{ extends: [tseslint.configs.strictTypeChecked, tseslint.configs.stylisticTypeChecked], files: ["**/*.{js,ts}"], languageOptions: {"parserOptions":{"projectService":{"allowDefaultProject":["*.config.*s"]},"tsconfigRootDir":import.meta.dirname}}, }'' @ [CHR 0x0A]
        @ '');'')]\<close>
    by (rule eslint_config_module)
qed

lemma replaceAll_quote:
  "replaceAll_char (CHR 0x22) '' '' w = map (\<lambda>c. if c = CHR 0x22 then CHR '' '' else c) w"
  by (induction w) (simp_all add: replaceAll_char_def)

text \<open>
  Claim C10. The one command of \<^verbatim>\<open>setup\<close> passes each string collected from the options as
  an argument \<^verbatim>\<open>--words "..."\<close> in which every double quote of the string is replaced by a
  space, so that no double quote is left between the quotes of an argument.
\<close>

theorem cspell_setup_word_arguments:
  \<open>scripts (blockCSpell_setup getObjectStringsDeep resolveBin opts) =
     [\<lparr> commands =
          [''node '' @ resolveBin ''cspell-populate-words/bin/index.mjs'' @ '' ''
           @ join '' ''
               (map (\<lambda>w. ''--words "'' @ map (\<lambda>c. if c = CHR 0x22 then CHR '' '' else c) w @ ''"'')
                    (getObjectStringsDeep opts))],
        phase = Process \<rparr>]
   \<and> (\<forall>w \<in> set (getObjectStringsDeep opts).
         CHR 0x22 \<notin> set (map (\<lambda>c. if c = CHR 0x22 then CHR '' '' else c) w))\<close>
proof -
  have "\<forall>w \<in> set (getObjectStringsDeep opts).
         CHR 0x22 \<notin> set (map (\<lambda>c. if c = CHR 0x22 then CHR '' '' else c) w)"
    by auto
  then show ?thesis
    by (simp add: blockCSpell_setup_def wordArgs_def replaceAll_quote)
qed

theorem cspell_setup_word_arguments_witness:
  \<open>scripts (blockCSpell_setup (\<lambda>opts. [''say "hi"'', ''plain'']) (\<lambda>bin. ''path/to/'' @ bin)
      \<lparr> options_bin = None, options_type = None, options_words = None \<rparr>) =
     [\<lparr> commands =
          [''node path/to/cspell-populate-words/bin/index.mjs --words "say  hi " --words "plain"''],
        phase = Process \<rparr>]\<close>
  using cspell_setup_word_arguments [of "\<lambda>opts. [''say \"hi\"'', ''plain'']" "\<lambda>bin. ''path/to/'' @ bin"
      "\<lparr> options_bin = None, options_type = None, options_words = None \<rparr>"]
  by simp

section \<open>Order of extensions and imports\<close>




lemma same_key_keeps_input_order:
  "filter (\<lambda>l. key l = k) (sort_key (\<lambda>l. collate (key l)) xs) = filter (\<lambda>l. key l = k) xs"
proof -
  have "filter (\<lambda>l. key l = k) (sort_key (\<lambda>l. collate (key l)) xs)
      = filter (\<lambda>l. key l = k)
          (filter (\<lambda>l. collate (key l) = collate k) (sort_key (\<lambda>l. collate (key l)) xs))"
    by (simp add: conj_commute cong: conj_cong filter_cong)
  also have "\<dots> = filter (\<lambda>l. key l = k) (filter (\<lambda>l. collate (key l) = collate k) xs)"
    by (simp only: sort_key_stable)
  also have "\<dots> = filter (\<lambda>l. key l = k) xs"
    by (simp add: conj_commute cong: conj_cong filter_cong)
  finally show ?thesis .
qed










section \<open>Invoking produce twice\<close>

text \<open>
  On a store in which the three input addresses are allocated, \<^verbatim>\<open>produce\<close> returns, and
  the store it leaves is the old one followed by the three arrays it allocated.
\<close>

lemma blockCSpell_produce_store_result:
  assumes "ignores_ref < length h" and "words_ref < length h"
    and "case options_words_ref of None \<Rightarrow> True | Some r \<Rightarrow> r < length h"
  shows "blockCSpell_produce_store deps h options_words_ref ignores_ref words_ref =
     Some (cspell_contribution deps
             (sort (base_ignorePaths @ h ! ignores_ref))
             (sort (new_Set ((case options_words_ref of None \<Rightarrow> [] | Some r \<Rightarrow> h ! r)
                             @ h ! words_ref))),
           h @ [(case options_words_ref of None \<Rightarrow> [] | Some r \<Rightarrow> h ! r) @ h ! words_ref,
                sort (new_Set ((case options_words_ref of None \<Rightarrow> [] | Some r \<Rightarrow> h ! r)
                               @ h ! words_ref)),
                sort (base_ignorePaths @ h ! ignores_ref)])"
proof (cases options_words_ref)
  case None
  then show ?thesis
    using assms
    by (simp add: blockCSpell_produce_store_def read_array_def alloc_def sort_in_place_def
        nth_append list_update_append del: sort_key_simps)
next
  case (Some r)
  then show ?thesis
    using assms
    by (simp add: blockCSpell_produce_store_def read_array_def alloc_def sort_in_place_def
        nth_append list_update_append del: sort_key_simps)
qed

text \<open>
  Claim C4. For fixed options and addons, invoking \<^verbatim>\<open>produce\<close> of the CSpell block twice
  yields identical contributions, and so identical file contents: the first call returns
  a contribution, it leaves every array that existed before the call as it was (the sorts
  in place touch only arrays the call allocated), the second call, from the store the
  first one left, returns the same contribution, and this contribution is the function of
  the values of the inputs given by \<^const>\<open>blockCSpell_produce\<close>.
\<close>

theorem blockCSpell_produce_twice:
  assumes "ignores_ref < length h" and "words_ref < length h"
    and "case options_words_ref of None \<Rightarrow> True | Some r \<Rightarrow> r < length h"
  shows "\<exists>c h' h''.
       blockCSpell_produce_store deps h options_words_ref ignores_ref words_ref = Some (c, h')
     \<and> blockCSpell_produce_store deps h' options_words_ref ignores_ref words_ref = Some (c, h'')
     \<and> take (length h) h' = h
     \<and> c = blockCSpell_produce deps
           \<lparr> options_bin = b, options_type = t,
             options_words = map_option (\<lambda>r. h ! r) options_words_ref \<rparr>
           \<lparr> ignores = h ! ignores_ref, words = h ! words_ref \<rparr>"
proof -
  let ?ows = "case options_words_ref of None \<Rightarrow> [] | Some r \<Rightarrow> h ! r"
  let ?c = "cspell_contribution deps (sort (base_ignorePaths @ h ! ignores_ref))
              (sort (new_Set (?ows @ h ! words_ref)))"
  let ?h' = "h @ [?ows @ h ! words_ref, sort (new_Set (?ows @ h ! words_ref)),
                  sort (base_ignorePaths @ h ! ignores_ref)]"
  have first: "blockCSpell_produce_store deps h options_words_ref ignores_ref words_ref
      = Some (?c, ?h')"
    using blockCSpell_produce_store_result [OF assms] .
  have valid': "ignores_ref < length ?h'" "words_ref < length ?h'"
    "case options_words_ref of None \<Rightarrow> True | Some r \<Rightarrow> r < length ?h'"
    using assms by (auto split: option.splits)
  have same: "?h' ! ignores_ref = h ! ignores_ref" "?h' ! words_ref = h ! words_ref"
    "(case options_words_ref of None \<Rightarrow> [] | Some r \<Rightarrow> ?h' ! r) = ?ows"
    using assms by (auto simp: nth_append split: option.splits)
  have second: "\<exists>h''. blockCSpell_produce_store deps ?h' options_words_ref ignores_ref words_ref
      = Some (?c, h'')"
    using blockCSpell_produce_store_result [OF valid', of deps] unfolding same by blast
  have pure: "?c = blockCSpell_produce deps
           \<lparr> options_bin = b, options_type = t,
             options_words = map_option (\<lambda>r. h ! r) options_words_ref \<rparr>
           \<lparr> ignores = h ! ignores_ref, words = h ! words_ref \<rparr>"
    by (cases options_words_ref)
       (simp_all add: blockCSpell_produce_def ignorePaths_def allWords_def del: sort_key_simps)
  have unchanged: "take (length h) ?h' = h"
    by simp
  show ?thesis
    using first second pure unchanged by blast
qed

theorem blockCSpell_produce_twice_witness:
  \<open>\<exists>c h' h''.
       blockCSpell_produce_store (\<lambda>names. JObject [(''cspell'', JString ''8.17.5'')])
         [[''zeta'', ''alpha''], [''dist'', ''lib''], [''alpha'', ''beta'']] (Some 0) 1 2
         = Some (c, h')
     \<and> blockCSpell_produce_store (\<lambda>names. JObject [(''cspell'', JString ''8.17.5'')])
         h' (Some 0) 1 2 = Some (c, h'')
     \<and> take 3 h' = [[''zeta'', ''alpha''], [''dist'', ''lib''], [''alpha'', ''beta'']]
     \<and> map snd (files c) =
        [''{"dictionaries":["npm","node","typescript"],"ignorePaths":[".github","CHANGELOG.md","dist","lib","lib","node_modules","pnpm-lock.yaml"],"words":["alpha","beta","zeta"]}'']\<close>
proof -
  let ?deps = "\<lambda>names :: string list. JObject [(''cspell'', JString ''8.17.5'')]"
  let ?h = "[[''zeta'', ''alpha''], [''dist'', ''lib''], [''alpha'', ''beta'']]"
  have valid: "(1::nat) < length ?h" "(2::nat) < length ?h"
    "case Some (0::nat) of None \<Rightarrow> True | Some r \<Rightarrow> r < length ?h"
    by simp_all
  obtain c h' h'' where
    first: "blockCSpell_produce_store ?deps ?h (Some 0) 1 2 = Some (c, h')" and
    second: "blockCSpell_produce_store ?deps h' (Some 0) 1 2 = Some (c, h'')" and
    unchanged: "take (length ?h) h' = ?h" and
    pure: "c = blockCSpell_produce ?deps
           \<lparr> options_bin = None, options_type = None,
             options_words = map_option (\<lambda>r. ?h ! r) (Some 0) \<rparr>
           \<lparr> ignores = ?h ! 1, words = ?h ! 2 \<rparr>"
    using blockCSpell_produce_twice [OF valid, of ?deps None None] by blast
  have content: \<open>map snd (files c) =
        [''{"dictionaries":["npm","node","typescript"],"ignorePaths":[".github","CHANGELOG.md","dist","lib","lib","node_modules","pnpm-lock.yaml"],"words":["alpha","beta","zeta"]}'']\<close>
    unfolding pure
    by (simp add: blockCSpell_produce_def cspell_contribution_def cspell_json_def ignorePaths_def
        base_ignorePaths_def allWords_def new_Set_def set_add_def json_strings_def json_quote_def
        json_escape_def)
  have unchanged3: "take 3 h' = ?h"
    using unchanged by (simp add: numeral_3_eq_3)
  show ?thesis
  proof (intro exI conjI)
    show "blockCSpell_produce_store ?deps ?h (Some 0) 1 2 = Some (c, h')"
      by (rule first)
    show "blockCSpell_produce_store ?deps h' (Some 0) 1 2 = Some (c, h'')"
      by (rule second)
    show "take 3 h' = ?h"
      by (rule unchanged3)
    show \<open>map snd (files c) =
        [''{"dictionaries":["npm","node","typescript"],"ignorePaths":[".github","CHANGELOG.md","dist","lib","lib","node_modules","pnpm-lock.yaml"],"words":["alpha","beta","zeta"]}'']\<close>
      by (rule content)
  qed
qed

section \<open>Addons that fail validation\<close>

text \<open>
  The arrays of strings are the values that pass the schema of an array of strings.
\<close>

lemma those_map_as_string: "those (map as_string xs) = Some ys \<longleftrightarrow> xs = map JString ys"
proof (induction xs arbitrary: ys)
  case Nil
  then show ?case by auto
next
  case (Cons x xs)
  show ?case
  proof (cases x)
    case (JString s)
    then show ?thesis
      using Cons.IH by (cases ys) (auto split: option.splits)
  qed (auto split: option.splits)
qed

lemma as_string_array_Some_iff: "as_string_array j = Some xs \<longleftrightarrow> j = json_strings xs"
  by (cases j) (auto simp: as_string_array_def json_strings_def those_map_as_string)

lemma as_string_array_json_strings: "as_string_array (json_strings xs) = Some xs"
  by (simp add: as_string_array_Some_iff)

lemma blockCSpell_addons_valid:
  assumes "zStringArrayDefault (map_of raw ''ignores'') = Some igs"
    and "zStringArrayDefault (map_of raw ''words'') = Some ws"
  shows "blockCSpell_resolve_and_produce deps opts raw =
           Inr (blockCSpell_produce deps opts \<lparr> ignores = igs, words = ws \<rparr>)"
  using assms by (simp add: blockCSpell_resolve_and_produce_def blockCSpell_addons_def)

text \<open>
  Claim C7. When the addons given to the CSpell block have an \<^verbatim>\<open>ignores\<close> or \<^verbatim>\<open>words\<close>
  value that is not an array of strings, validation fails and the block produces no
  contribution: the result is a configuration error that names the block \<^verbatim>\<open>CSpell\<close> and,
  among the violating fields, that field. (A field that is not given at all takes the
  default of the schema, the empty list.)
\<close>

theorem cspell_addons_validation_error:
  assumes "f = ''ignores'' \<or> f = ''words''"
    and "map_of raw f = Some v"
    and "\<forall>xs. v \<noteq> json_strings xs"
  shows "\<exists>fs. blockCSpell_resolve_and_produce deps opts raw = Inl (ConfigError ''CSpell'' fs)
            \<and> f \<in> set fs
            \<and> set fs \<subseteq> {''ignores'', ''words''}"
proof -
  have "as_string_array v = None"
    using assms(3) as_string_array_Some_iff [of v] by (cases "as_string_array v") auto
  then have bad: "zStringArrayDefault (map_of raw f) = None"
    using assms(2) by (simp add: zStringArrayDefault_def)
  let ?fs = "filter (\<lambda>f. zStringArrayDefault (map_of raw f) = None) [''ignores'', ''words'']"
  have "blockCSpell_addons raw = Inl (ConfigError ''CSpell'' ?fs)"
    using assms(1) bad
    by (auto simp: blockCSpell_addons_def split: option.splits)
  then have "blockCSpell_resolve_and_produce deps opts raw = Inl (ConfigError ''CSpell'' ?fs)"
    by (simp add: blockCSpell_resolve_and_produce_def)
  moreover have "f \<in> set ?fs"
    using assms(1) bad by auto
  moreover have "set ?fs \<subseteq> {''ignores'', ''words''}"
    by auto
  ultimately show ?thesis
    by blast
qed

theorem cspell_addons_validation_error_witness:
  "\<exists>fs. blockCSpell_resolve_and_produce (\<lambda>names. JObject [])
           \<lparr> options_bin = None, options_type = None, options_words = None \<rparr>
           [(''ignores'', json_strings [''dist'']), (''words'', JArray [JString ''a'', JNum 1])]
         = Inl (ConfigError ''CSpell'' fs)
       \<and> ''words'' \<in> set fs \<and> set fs \<subseteq> {''ignores'', ''words''}"
proof -
  have v: "\<forall>xs. JArray [JString ''a'', JNum 1] \<noteq> json_strings xs"
  proof
    fix xs show "JArray [JString ''a'', JNum 1] \<noteq> json_strings xs"
      by (cases xs; cases "tl xs") (auto simp: json_strings_def)
  qed
  show ?thesis
    using cspell_addons_validation_error [of "''words''"
        "[(''ignores'', json_strings [''dist'']), (''words'', JArray [JString ''a'', JNum 1])]"
        "JArray [JString ''a'', JNum 1]" "\<lambda>names. JObject []"
        "\<lparr> options_bin = None, options_type = None, options_words = None \<rparr>"] v
    by simp
qed

section \<open>The usage section\<close>

text \<open>
  \<^const>\<open>indexOf\<close> gives nothing exactly when the needle does not occur, and otherwise the
  least position at which it occurs. \<^const>\<open>trim\<close> removes white space at both ends and
  nothing else, and gives the empty string exactly for a string of white space.
\<close>

lemma indexOf_None_iff: "indexOf needle s = None \<longleftrightarrow> \<not> sublist needle s"
proof (induction s)
  case Nil
  then show ?case by auto
next
  case (Cons c cs)
  show ?case
  proof (cases "prefix needle (c # cs)")
    case True
    then show ?thesis by (auto dest: prefix_imp_sublist)
  next
    case False
    then show ?thesis
      using Cons.IH by (simp add: sublist_Cons_right)
  qed
qed

lemma indexOf_Some_iff:
  "indexOf needle s = Some i \<longleftrightarrow>
     i \<le> length s \<and> prefix needle (drop i s) \<and> (\<forall>k<i. \<not> prefix needle (drop k s))"
proof (induction s arbitrary: i)
  case Nil
  then show ?case by auto
next
  case (Cons c cs)
  show ?case
  proof (cases "prefix needle (c # cs)")
    case True
    then show ?thesis
      by (cases i) auto
  next
    case False
    show ?thesis
    proof (cases i)
      case 0
      then show ?thesis using False by auto
    next
      case (Suc j)
      have "(\<forall>k<Suc j. \<not> prefix needle (drop k (c # cs))) \<longleftrightarrow> (\<forall>k<j. \<not> prefix needle (drop k cs))"
        using False by (auto simp: less_Suc_eq_0_disj)
      then show ?thesis
        using False Suc Cons.IH [of j] by auto
    qed
  qed
qed

lemma trim_Nil_iff: "trim s = [] \<longleftrightarrow> (\<forall>c \<in> set s. is_white_space c)"
proof -
  have "trim s = [] \<longleftrightarrow> dropWhile is_white_space (rev (dropWhile is_white_space s)) = []"
    by (simp add: trim_def)
  also have "\<dots> \<longleftrightarrow> (\<forall>c \<in> set (dropWhile is_white_space s). is_white_space c)"
    by (simp add: dropWhile_eq_Nil_conv)
  also have "\<dots> \<longleftrightarrow> dropWhile is_white_space s = []"
    by (metis dropWhile_eq_Nil_conv dropWhile_idem)
  also have "\<dots> \<longleftrightarrow> (\<forall>c \<in> set s. is_white_space c)"
    by (simp add: dropWhile_eq_Nil_conv)
  finally show ?thesis .
qed

lemma trim_decompose:
  "\<exists>pre post. s = pre @ trim s @ post
      \<and> (\<forall>c \<in> set pre. is_white_space c) \<and> (\<forall>c \<in> set post. is_white_space c)"
proof -
  let ?d = "dropWhile is_white_space s"
  have 1: "s = takeWhile is_white_space s @ ?d"
    by simp
  have "rev ?d = takeWhile is_white_space (rev ?d) @ dropWhile is_white_space (rev ?d)"
    by simp
  then have "?d = rev (dropWhile is_white_space (rev ?d)) @ rev (takeWhile is_white_space (rev ?d))"
    by (metis rev_append rev_rev_ident)
  then have 2: "?d = trim s @ rev (takeWhile is_white_space (rev ?d))"
    by (simp add: trim_def)
  have 3: "\<forall>c \<in> set (takeWhile is_white_space s). is_white_space c"
    by (auto dest: set_takeWhileD)
  have 4: "\<forall>c \<in> set (rev (takeWhile is_white_space (rev ?d))). is_white_space c"
    by (auto dest: set_takeWhileD)
  show ?thesis
    using 1 2 3 4 by metis
qed

lemma trim_ends:
  "trim s \<noteq> [] \<Longrightarrow> \<not> is_white_space (hd (trim s)) \<and> \<not> is_white_space (last (trim s))"
proof -
  assume ne: "trim s \<noteq> []"
  let ?d = "dropWhile is_white_space s"
  let ?e = "dropWhile is_white_space (rev ?d)"
  have e: "?e \<noteq> []" using ne by (simp add: trim_def)
  then have l: "\<not> is_white_space (hd ?e)"
    using hd_dropWhile by blast
  have d: "?d \<noteq> []"
  proof
    assume "?d = []"
    then have "?e = []" by (simp only: rev.simps(1) dropWhile.simps(1))
    with e show False by simp
  qed
  then have hd: "\<not> is_white_space (hd ?d)"
    using hd_dropWhile by blast
  have "rev ?d = takeWhile is_white_space (rev ?d) @ ?e"
    by simp
  then have "?d = rev ?e @ rev (takeWhile is_white_space (rev ?d))"
    by (metis rev_append rev_rev_ident)
  then have "hd ?d = hd (rev ?e)"
    using e by (metis hd_append2 rev_is_Nil_conv)
  then have "\<not> is_white_space (hd (trim s))"
    using hd by (simp add: trim_def)
  moreover have "\<not> is_white_space (last (trim s))"
    using l e by (simp add: trim_def last_rev)
  ultimately show ?thesis by simp
qed

text \<open>
  Claim C3. \<^verbatim>\<open>readUsageFromReadme\<close> returns nothing when \<^verbatim>\<open>## Usage\<close> does not occur in the
  text, and nothing when no \<^verbatim>\<open>## Development\<close> occurs after the first \<^verbatim>\<open>## Usage\<close>.
  Otherwise, with the span between the end of the first \<^verbatim>\<open>## Usage\<close> and the start of the
  next \<^verbatim>\<open>## Development\<close>, it returns nothing when the span is empty or only white space
  and the trimmed span when it is not. On the text
  \<^verbatim>\<open>"## Usage\n\n  Content.\n## Development"\<close> it returns \<^verbatim>\<open>"Content."\<close>.
\<close>

theorem readUsageFromReadme_section:
  "(\<not> sublist ''## Usage'' r1 \<longrightarrow> readUsageFromReadme r1 = None)
   \<and> (indexOf ''## Usage'' r2 = Some i2 \<and> \<not> sublist ''## Development'' (drop (i2 + length ''## Usage'') r2)
        \<longrightarrow> readUsageFromReadme r2 = None)
   \<and> (indexOf ''## Usage'' r3 = Some i3 \<and> indexOf ''## Development'' (drop (i3 + length ''## Usage'') r3) = Some j3
        \<longrightarrow> readUsageFromReadme r3 =
              (if \<forall>c \<in> set (take j3 (drop (i3 + length ''## Usage'') r3)). is_white_space c then None
               else Some (trim (take j3 (drop (i3 + length ''## Usage'') r3)))))
   \<and> readUsageFromReadme
        (''## Usage'' @ [CHR 0x0A, CHR 0x0A] @ ''  Content.'' @ [CHR 0x0A] @ ''## Development'')
       = Some ''Content.''"
proof (intro conjI impI)
  assume "\<not> sublist ''## Usage'' r1"
  then have "indexOf ''## Usage'' r1 = None"
    using indexOf_None_iff by blast
  then show "readUsageFromReadme r1 = None"
    by (simp add: readUsageFromReadme_def)
next
  assume a: "indexOf ''## Usage'' r2 = Some i2 \<and> \<not> sublist ''## Development'' (drop (i2 + length ''## Usage'') r2)"
  then have "indexOf ''## Development'' (drop (i2 + length ''## Usage'') r2) = None"
    using indexOf_None_iff by blast
  then show "readUsageFromReadme r2 = None"
    using a by (simp add: readUsageFromReadme_def)
next
  assume a: "indexOf ''## Usage'' r3 = Some i3
      \<and> indexOf ''## Development'' (drop (i3 + length ''## Usage'') r3) = Some j3"
  show "readUsageFromReadme r3 =
      (if \<forall>c \<in> set (take j3 (drop (i3 + length ''## Usage'') r3)). is_white_space c then None
       else Some (trim (take j3 (drop (i3 + length ''## Usage'') r3))))"
    using a trim_Nil_iff [of "take j3 (drop (i3 + length ''## Usage'') r3)"]
    by (simp add: readUsageFromReadme_def Let_def)
next
  show "readUsageFromReadme
        (''## Usage'' @ [CHR 0x0A, CHR 0x0A] @ ''  Content.'' @ [CHR 0x0A] @ ''## Development'')
       = Some ''Content.''"
    by (simp add: readUsageFromReadme_def trim_def is_white_space_def)
qed

theorem readUsageFromReadme_section_witness:
  "readUsageFromReadme ''## Other'' = None
   \<and> readUsageFromReadme (''## Usage'' @ [CHR 0x0A, CHR 0x0A] @ ''Contents.'') = None
   \<and> readUsageFromReadme (''## Usage'' @ [CHR 0x0A, CHR 0x0A] @ ''  '' @ [CHR 0x0A] @ ''## Development'') = None"
proof -
  let ?r1 = "''## Other''"
  let ?r2 = "''## Usage'' @ [CHR 0x0A, CHR 0x0A] @ ''Contents.''"
  let ?r3 = "''## Usage'' @ [CHR 0x0A, CHR 0x0A] @ ''  '' @ [CHR 0x0A] @ ''## Development''"
  have h1: "\<not> sublist ''## Usage'' ?r1"
    by (simp only: indexOf_None_iff [symmetric]) simp
  have h2: "indexOf ''## Usage'' ?r2 = Some 0
      \<and> \<not> sublist ''## Development'' (drop (0 + length ''## Usage'') ?r2)"
    by (simp only: indexOf_None_iff [symmetric]) simp
  have h3: "indexOf ''## Usage'' ?r3 = Some 0
      \<and> indexOf ''## Development'' (drop (0 + length ''## Usage'') ?r3) = Some 5"
    by simp
  have ws: "\<forall>c \<in> set (take 5 (drop (0 + length ''## Usage'') ?r3)). is_white_space c"
    by (simp add: is_white_space_def)
  show ?thesis
    using readUsageFromReadme_section [of ?r1 ?r2 0 ?r3 0 5] h1 h2 h3 ws
    by (simp only: if_True) simp
qed

section \<open>Cases of the Vitest intake\<close>

text \<open>
  What the schema of the \<^verbatim>\<open>test\<close> data rejects and what it recovers.
\<close>

lemma zTest_not_object: "\<forall>kvs. t \<noteq> JObject kvs \<Longrightarrow> zTest t = None"
  by (cases t) (simp_all add: zTest_def)

lemma zCoverage_not_object: "\<forall>kvs. c \<noteq> JObject kvs \<Longrightarrow> zCoverage c = None"
  by (cases c) (simp_all add: zCoverage_def)

lemma optional_string_array_valid:
  "map_of kvs k = map_option json_strings e \<Longrightarrow> optional_string_array (JObject kvs) k = Some e"
  by (cases e)
     (simp_all add: optional_string_array_def get_property_def as_string_array_json_strings)

lemma optional_string_array_invalid:
  "map_of kvs k = Some v \<Longrightarrow> \<forall>xs. v \<noteq> json_strings xs
     \<Longrightarrow> optional_string_array (JObject kvs) k = None"
  using as_string_array_Some_iff [of v]
  by (cases "as_string_array v") (auto simp: optional_string_array_def get_property_def)

lemma zCoverage_valid:
  "map_of ckvs ''exclude'' = map_option json_strings ce
   \<Longrightarrow> map_of ckvs ''include'' = map_option json_strings ci
   \<Longrightarrow> zCoverage (JObject ckvs) = Some \<lparr> coverage_exclude = ce, coverage_include = ci \<rparr>"
  by (simp add: zCoverage_def optional_string_array_valid)

lemma zCoverage_invalid:
  "k = ''exclude'' \<or> k = ''include'' \<Longrightarrow> map_of ckvs k = Some v
   \<Longrightarrow> \<forall>xs. v \<noteq> json_strings xs \<Longrightarrow> zCoverage (JObject ckvs) = None"
  by (auto simp: zCoverage_def optional_string_array_invalid split: option.splits)

lemma zTest_bad_coverage:
  "map_of kvs ''coverage'' = Some c \<Longrightarrow> zCoverage c = None \<Longrightarrow> zTest (JObject kvs) = None"
  by (simp add: zTest_def get_property_def)

lemma zTest_bad_exclude:
  "map_of kvs ''exclude'' = Some v \<Longrightarrow> \<forall>xs. v \<noteq> json_strings xs \<Longrightarrow> zTest (JObject kvs) = None"
  by (simp add: zTest_def optional_string_array_invalid split: option.splits)

lemma zTest_without_coverage:
  "map_of kvs ''coverage'' = None \<Longrightarrow> map_of kvs ''exclude'' = map_option json_strings e
   \<Longrightarrow> zTest (JObject kvs) = Some \<lparr> coverage = None, exclude = e \<rparr>"
  by (simp add: zTest_def get_property_def optional_string_array_valid)

lemma zTest_with_coverage:
  "map_of kvs ''coverage'' = Some c \<Longrightarrow> zCoverage c = Some cov
   \<Longrightarrow> map_of kvs ''exclude'' = map_option json_strings e
   \<Longrightarrow> zTest (JObject kvs) = Some \<lparr> coverage = Some cov, exclude = e \<rparr>"
  by (simp add: zTest_def get_property_def optional_string_array_valid)

lemma intake_of_test:
  "map_of fs ''vitest.config.ts'' = Some (File text) \<Longrightarrow> parse text = Some (JObject kvs)
   \<Longrightarrow> map_of kvs ''test'' = Some t \<Longrightarrow> blockVitest_intake parse fs = zTest t"
  by (simp add: blockVitest_intake_def get_property_def)


text \<open>
  A \<^verbatim>\<open>test\<close> object passes the schema whenever its \<^verbatim>\<open>coverage\<close>, where given, is an
  object and the three lists, where given, are arrays of strings: the rejected shapes of
  the claim below are all there are.
\<close>

lemma absent_or_string_array:
  assumes "\<And>v. m = Some v \<Longrightarrow> \<exists>xs. v = json_strings xs"
  shows "\<exists>e. m = map_option json_strings e"
proof (cases m)
  case None
  then have "m = map_option json_strings None" by simp
  then show ?thesis by (rule exI)
next
  case (Some v)
  then obtain xs where "v = json_strings xs" using assms by blast
  then have "m = map_option json_strings (Some xs)" using Some by simp
  then show ?thesis by (rule exI)
qed

lemma zTest_Some_or_rejected:
  assumes obj: "t = JObject tkvs"
    and cov: "\<And>c. map_of tkvs ''coverage'' = Some c \<Longrightarrow> \<exists>ckvs. c = JObject ckvs"
    and covf: "\<And>ckvs k v. map_of tkvs ''coverage'' = Some (JObject ckvs)
                \<Longrightarrow> k = ''exclude'' \<or> k = ''include'' \<Longrightarrow> map_of ckvs k = Some v
                \<Longrightarrow> \<exists>xs. v = json_strings xs"
    and exc: "\<And>v. map_of tkvs ''exclude'' = Some v \<Longrightarrow> \<exists>xs. v = json_strings xs"
  shows "\<exists>r. zTest t = Some r"
proof -
  obtain e where e: "map_of tkvs ''exclude'' = map_option json_strings e"
    using absent_or_string_array [of "map_of tkvs ''exclude''"] exc by blast
  show ?thesis
  proof (cases "map_of tkvs ''coverage''")
    case None
    then show ?thesis
      using zTest_without_coverage [OF None e] obj by simp
  next
    case (Some c)
    then obtain ckvs where c: "c = JObject ckvs" using cov by blast
    obtain ce where ce: "map_of ckvs ''exclude'' = map_option json_strings ce"
      using absent_or_string_array [of "map_of ckvs ''exclude''"] covf Some c by blast
    obtain ci where ci: "map_of ckvs ''include'' = map_option json_strings ci"
      using absent_or_string_array [of "map_of ckvs ''include''"] covf Some c by blast
    have "zCoverage c = Some \<lparr> coverage_exclude = ce, coverage_include = ci \<rparr>"
      using zCoverage_valid [OF ce ci] c by simp
    then show ?thesis
      using zTest_with_coverage [OF Some _ e] obj by simp
  qed
qed

text \<open>
  Claim C2. The intake of the Vitest block returns nothing when \<^verbatim>\<open>vitest.config.ts\<close> is
  absent, when its text has no \<^verbatim>\<open>defineConfig\<close> argument that parses, when that argument
  is not an object, when the object has no \<^verbatim>\<open>test\<close> property, and when the \<^verbatim>\<open>test\<close> data
  is not an object or violates the schema: a \<^verbatim>\<open>coverage\<close> that is not an object, a
  \<^verbatim>\<open>coverage.exclude\<close> or \<^verbatim>\<open>coverage.include\<close> that is not an array of strings, or an
  \<^verbatim>\<open>exclude\<close> that is not an array of strings. For every other \<^verbatim>\<open>test\<close> object it returns
  exactly the recovered addons: the \<^verbatim>\<open>exclude\<close> and \<^verbatim>\<open>include\<close> lists of \<^verbatim>\<open>coverage\<close> and
  the \<^verbatim>\<open>exclude\<close> list, each as given or missing. Every result is a value; no case raises.
\<close>

theorem blockVitest_intake_cases:
  "(map_of fs1 ''vitest.config.ts'' = None \<longrightarrow> blockVitest_intake parse fs1 = None)
   \<and> (map_of fs2 ''vitest.config.ts'' = Some (File text2) \<and> parse text2 = None
        \<longrightarrow> blockVitest_intake parse fs2 = None)
   \<and> (map_of fs3 ''vitest.config.ts'' = Some (File text3) \<and> parse text3 = Some arg3
        \<and> (\<forall>kvs. arg3 \<noteq> JObject kvs)
        \<longrightarrow> blockVitest_intake parse fs3 = None)
   \<and> (map_of fs4 ''vitest.config.ts'' = Some (File text4) \<and> parse text4 = Some (JObject kvs4)
        \<and> map_of kvs4 ''test'' = None
        \<longrightarrow> blockVitest_intake parse fs4 = None)
   \<and> (map_of fs5 ''vitest.config.ts'' = Some (File text5) \<and> parse text5 = Some (JObject kvs5)
        \<and> map_of kvs5 ''test'' = Some t5
        \<and> ((\<forall>tkvs. t5 \<noteq> JObject tkvs)
            \<or> (\<exists>tkvs c. t5 = JObject tkvs \<and> map_of tkvs ''coverage'' = Some c
                  \<and> (\<forall>ckvs. c \<noteq> JObject ckvs))
            \<or> (\<exists>tkvs ckvs k v. t5 = JObject tkvs
                  \<and> map_of tkvs ''coverage'' = Some (JObject ckvs)
                  \<and> (k = ''exclude'' \<or> k = ''include'') \<and> map_of ckvs k = Some v
                  \<and> (\<forall>xs. v \<noteq> json_strings xs))
            \<or> (\<exists>tkvs v. t5 = JObject tkvs \<and> map_of tkvs ''exclude'' = Some v
                  \<and> (\<forall>xs. v \<noteq> json_strings xs)))
        \<longrightarrow> blockVitest_intake parse fs5 = None)
   \<and> (map_of fs6 ''vitest.config.ts'' = Some (File text6) \<and> parse text6 = Some (JObject kvs6)
        \<and> map_of kvs6 ''test'' = Some (JObject tkvs6)
        \<and> map_of tkvs6 ''coverage'' = None
        \<and> map_of tkvs6 ''exclude'' = map_option json_strings e6
        \<longrightarrow> blockVitest_intake parse fs6 = Some \<lparr> coverage = None, exclude = e6 \<rparr>)
   \<and> (map_of fs7 ''vitest.config.ts'' = Some (File text7) \<and> parse text7 = Some (JObject kvs7)
        \<and> map_of kvs7 ''test'' = Some (JObject tkvs7)
        \<and> map_of tkvs7 ''coverage'' = Some (JObject ckvs7)
        \<and> map_of ckvs7 ''exclude'' = map_option json_strings ce
        \<and> map_of ckvs7 ''include'' = map_option json_strings ci
        \<and> map_of tkvs7 ''exclude'' = map_option json_strings e7
        \<longrightarrow> blockVitest_intake parse fs7 =
              Some \<lparr> coverage = Some \<lparr> coverage_exclude = ce, coverage_include = ci \<rparr>,
                     exclude = e7 \<rparr>)"
proof (intro conjI impI)
  assume "map_of fs1 ''vitest.config.ts'' = None"
  then show "blockVitest_intake parse fs1 = None"
    by (simp add: blockVitest_intake_def)
next
  assume "map_of fs2 ''vitest.config.ts'' = Some (File text2) \<and> parse text2 = None"
  then show "blockVitest_intake parse fs2 = None"
    by (simp add: blockVitest_intake_def)
next
  assume a: "map_of fs3 ''vitest.config.ts'' = Some (File text3) \<and> parse text3 = Some arg3
        \<and> (\<forall>kvs. arg3 \<noteq> JObject kvs)"
  then have "get_property arg3 ''test'' = None"
    by (cases arg3) (simp_all add: get_property_def)
  then show "blockVitest_intake parse fs3 = None"
    using a by (simp add: blockVitest_intake_def)
next
  assume "map_of fs4 ''vitest.config.ts'' = Some (File text4) \<and> parse text4 = Some (JObject kvs4)
        \<and> map_of kvs4 ''test'' = None"
  then show "blockVitest_intake parse fs4 = None"
    by (simp add: blockVitest_intake_def get_property_def)
next
  assume a: "map_of fs5 ''vitest.config.ts'' = Some (File text5) \<and> parse text5 = Some (JObject kvs5)
        \<and> map_of kvs5 ''test'' = Some t5
        \<and> ((\<forall>tkvs. t5 \<noteq> JObject tkvs)
            \<or> (\<exists>tkvs c. t5 = JObject tkvs \<and> map_of tkvs ''coverage'' = Some c
                  \<and> (\<forall>ckvs. c \<noteq> JObject ckvs))
            \<or> (\<exists>tkvs ckvs k v. t5 = JObject tkvs
                  \<and> map_of tkvs ''coverage'' = Some (JObject ckvs)
                  \<and> (k = ''exclude'' \<or> k = ''include'') \<and> map_of ckvs k = Some v
                  \<and> (\<forall>xs. v \<noteq> json_strings xs))
            \<or> (\<exists>tkvs v. t5 = JObject tkvs \<and> map_of tkvs ''exclude'' = Some v
                  \<and> (\<forall>xs. v \<noteq> json_strings xs)))"
  then have i: "blockVitest_intake parse fs5 = zTest t5"
    using intake_of_test [of fs5 text5 parse kvs5 t5] by simp
  from a have "(\<forall>tkvs. t5 \<noteq> JObject tkvs)
            \<or> (\<exists>tkvs c. t5 = JObject tkvs \<and> map_of tkvs ''coverage'' = Some c
                  \<and> (\<forall>ckvs. c \<noteq> JObject ckvs))
            \<or> (\<exists>tkvs ckvs k v. t5 = JObject tkvs
                  \<and> map_of tkvs ''coverage'' = Some (JObject ckvs)
                  \<and> (k = ''exclude'' \<or> k = ''include'') \<and> map_of ckvs k = Some v
                  \<and> (\<forall>xs. v \<noteq> json_strings xs))
            \<or> (\<exists>tkvs v. t5 = JObject tkvs \<and> map_of tkvs ''exclude'' = Some v
                  \<and> (\<forall>xs. v \<noteq> json_strings xs))"
    by (elim conjE)
  then have "zTest t5 = None"
  proof (elim disjE exE conjE)
    assume "\<forall>tkvs. t5 \<noteq> JObject tkvs"
    then show ?thesis
      by (rule zTest_not_object)
  next
    fix tkvs c
    assume "t5 = JObject tkvs" "map_of tkvs ''coverage'' = Some c" "\<forall>ckvs. c \<noteq> JObject ckvs"
    then show ?thesis
      using zTest_bad_coverage [of tkvs c] zCoverage_not_object [of c] by simp
  next
    fix tkvs ckvs k v
    assume t: "t5 = JObject tkvs" "map_of tkvs ''coverage'' = Some (JObject ckvs)"
      and k: "k = ''exclude''" "map_of ckvs k = Some v" "\<forall>xs. v \<noteq> json_strings xs"
    have "zCoverage (JObject ckvs) = None"
      using zCoverage_invalid [of k ckvs v] k by simp
    then show ?thesis
      using t zTest_bad_coverage [of tkvs "JObject ckvs"] by simp
  next
    fix tkvs ckvs k v
    assume t: "t5 = JObject tkvs" "map_of tkvs ''coverage'' = Some (JObject ckvs)"
      and k: "k = ''include''" "map_of ckvs k = Some v" "\<forall>xs. v \<noteq> json_strings xs"
    have "zCoverage (JObject ckvs) = None"
      using zCoverage_invalid [of k ckvs v] k by simp
    then show ?thesis
      using t zTest_bad_coverage [of tkvs "JObject ckvs"] by simp
  next
    fix tkvs v
    assume "t5 = JObject tkvs" "map_of tkvs ''exclude'' = Some v" "\<forall>xs. v \<noteq> json_strings xs"
    then show ?thesis
      using zTest_bad_exclude [of tkvs v] by simp
  qed
  then show "blockVitest_intake parse fs5 = None"
    using i by simp
next
  assume a: "map_of fs6 ''vitest.config.ts'' = Some (File text6) \<and> parse text6 = Some (JObject kvs6)
        \<and> map_of kvs6 ''test'' = Some (JObject tkvs6)
        \<and> map_of tkvs6 ''coverage'' = None
        \<and> map_of tkvs6 ''exclude'' = map_option json_strings e6"
  then have "blockVitest_intake parse fs6 = zTest (JObject tkvs6)"
    using intake_of_test [of fs6 text6 parse kvs6 "JObject tkvs6"] by simp
  then show "blockVitest_intake parse fs6 = Some \<lparr> coverage = None, exclude = e6 \<rparr>"
    using a zTest_without_coverage [of tkvs6 e6] by simp
next
  assume a: "map_of fs7 ''vitest.config.ts'' = Some (File text7) \<and> parse text7 = Some (JObject kvs7)
        \<and> map_of kvs7 ''test'' = Some (JObject tkvs7)
        \<and> map_of tkvs7 ''coverage'' = Some (JObject ckvs7)
        \<and> map_of ckvs7 ''exclude'' = map_option json_strings ce
        \<and> map_of ckvs7 ''include'' = map_option json_strings ci
        \<and> map_of tkvs7 ''exclude'' = map_option json_strings e7"
  then have i: "blockVitest_intake parse fs7 = zTest (JObject tkvs7)"
    using intake_of_test [of fs7 text7 parse kvs7 "JObject tkvs7"] by simp
  have c: "zCoverage (JObject ckvs7) = Some \<lparr> coverage_exclude = ce, coverage_include = ci \<rparr>"
    using a zCoverage_valid [of ckvs7 ce ci] by simp
  show "blockVitest_intake parse fs7 =
              Some \<lparr> coverage = Some \<lparr> coverage_exclude = ce, coverage_include = ci \<rparr>,
                     exclude = e7 \<rparr>"
    using a i c zTest_with_coverage [of tkvs7 "JObject ckvs7" _ e7] by simp
qed

theorem blockVitest_intake_cases_witness:
  \<open>let parse = map_of
        [(''defineConfig("invalid")'',
            JString ''invalid''),
         (''defineConfig({ other: true })'',
            JObject [(''other'', JBool True)]),
         (''defineConfig({ test: true })'',
            JObject [(''test'', JBool True)]),
         (''defineConfig({ test: { coverage: "invalid" } })'',
            JObject [(''test'', JObject [(''coverage'', JString ''invalid'')])]),
         (''defineConfig({ test: { coverage: { exclude: "src" } } })'',
            JObject [(''test'', JObject [(''coverage'', JObject [(''exclude'', JString ''src'')])])]),
         (''defineConfig({ test: { exclude: ["lib"] } })'',
            JObject [(''test'', JObject [(''exclude'', json_strings [''lib''])])]),
         (''defineConfig({ test: { clearMocks: true, coverage: { all: true, exclude: ["src/index.ts"], include: ["src", "other"] }, exclude: ["lib", "node_modules"] } })'',
            JObject [(''test'', JObject [(''clearMocks'', JBool True), (''coverage'', JObject [(''all'', JBool True), (''exclude'', json_strings [''src/index.ts'']), (''include'', json_strings [''src'', ''other''])]), (''exclude'', json_strings [''lib'', ''node_modules''])])])]
   in blockVitest_intake parse
         [(''src'', Directory [])]
       = None
    \<and> blockVitest_intake parse
         [(''vitest.config.ts'', File ''defineConfig({ test: { ! } })'')]
       = None
    \<and> blockVitest_intake parse
         [(''vitest.config.ts'', File ''defineConfig("invalid")'')]
       = None
    \<and> blockVitest_intake parse
         [(''vitest.config.ts'', File ''defineConfig({ other: true })'')]
       = None
    \<and> blockVitest_intake parse
         [(''vitest.config.ts'', File ''defineConfig({ test: true })'')]
       = None
    \<and> blockVitest_intake parse
         [(''vitest.config.ts'', File ''defineConfig({ test: { coverage: "invalid" } })'')]
       = None
    \<and> blockVitest_intake parse
         [(''vitest.config.ts'', File ''defineConfig({ test: { coverage: { exclude: "src" } } })'')]
       = None
    \<and> blockVitest_intake parse
         [(''vitest.config.ts'', File ''defineConfig({ test: { exclude: ["lib"] } })'')]
       = Some \<lparr> coverage = None, exclude = Some [''lib''] \<rparr>
    \<and> blockVitest_intake parse
         [(''vitest.config.ts'', File ''defineConfig({ test: { clearMocks: true, coverage: { all: true, exclude: ["src/index.ts"], include: ["src", "other"] }, exclude: ["lib", "node_modules"] } })'')]
       = Some \<lparr> coverage = Some \<lparr> coverage_exclude = Some [''src/index.ts''], coverage_include = Some [''src'', ''other''] \<rparr>,
              exclude = Some [''lib'', ''node_modules''] \<rparr>\<close>
proof -
  let ?p = \<open>map_of
        [(''defineConfig("invalid")'',
            JString ''invalid''),
         (''defineConfig({ other: true })'',
            JObject [(''other'', JBool True)]),
         (''defineConfig({ test: true })'',
            JObject [(''test'', JBool True)]),
         (''defineConfig({ test: { coverage: "invalid" } })'',
            JObject [(''test'', JObject [(''coverage'', JString ''invalid'')])]),
         (''defineConfig({ test: { coverage: { exclude: "src" } } })'',
            JObject [(''test'', JObject [(''coverage'', JObject [(''exclude'', JString ''src'')])])]),
         (''defineConfig({ test: { exclude: ["lib"] } })'',
            JObject [(''test'', JObject [(''exclude'', json_strings [''lib''])])]),
         (''defineConfig({ test: { clearMocks: true, coverage: { all: true, exclude: ["src/index.ts"], include: ["src", "other"] }, exclude: ["lib", "node_modules"] } })'',
            JObject [(''test'', JObject [(''clearMocks'', JBool True), (''coverage'', JObject [(''all'', JBool True), (''exclude'', json_strings [''src/index.ts'']), (''include'', json_strings [''src'', ''other''])]), (''exclude'', json_strings [''lib'', ''node_modules''])])])]\<close>
  have h1: "map_of [(''src'', Directory [])] ''vitest.config.ts'' = None"
    by simp
  have h2: \<open>map_of [(''vitest.config.ts'', File ''defineConfig({ test: { ! } })'')] ''vitest.config.ts'' = Some (File ''defineConfig({ test: { ! } })'') \<and> ?p ''defineConfig({ test: { ! } })'' = None\<close>
    by simp
  have h3: \<open>map_of [(''vitest.config.ts'', File ''defineConfig("invalid")'')] ''vitest.config.ts'' = Some (File ''defineConfig("invalid")'')
       \<and> ?p ''defineConfig("invalid")'' = Some (JString ''invalid'')
       \<and> (\<forall>kvs. JString ''invalid'' \<noteq> JObject kvs)\<close>
    by simp
  have h4: \<open>map_of [(''vitest.config.ts'', File ''defineConfig({ other: true })'')] ''vitest.config.ts'' = Some (File ''defineConfig({ other: true })'')
       \<and> ?p ''defineConfig({ other: true })'' = Some (JObject [(''other'', JBool True)])
       \<and> map_of [(''other'', JBool True)] ''test'' = None\<close>
    by simp
  have h5a: \<open>map_of [(''vitest.config.ts'', File ''defineConfig({ test: true })'')] ''vitest.config.ts'' = Some (File ''defineConfig({ test: true })'')
       \<and> ?p ''defineConfig({ test: true })'' = Some (JObject [(''test'', JBool True)])
       \<and> map_of [(''test'', JBool True)] ''test'' = Some (JBool True)
       \<and> ((\<forall>tkvs. JBool True \<noteq> JObject tkvs)
            \<or> (\<exists>tkvs c. JBool True = JObject tkvs \<and> map_of tkvs ''coverage'' = Some c
                  \<and> (\<forall>ckvs. c \<noteq> JObject ckvs))
            \<or> (\<exists>tkvs ckvs k v. JBool True = JObject tkvs
                  \<and> map_of tkvs ''coverage'' = Some (JObject ckvs)
                  \<and> (k = ''exclude'' \<or> k = ''include'') \<and> map_of ckvs k = Some v
                  \<and> (\<forall>xs. v \<noteq> json_strings xs))
            \<or> (\<exists>tkvs v. JBool True = JObject tkvs \<and> map_of tkvs ''exclude'' = Some v
                  \<and> (\<forall>xs. v \<noteq> json_strings xs)))\<close>
    by simp
  have h5b: \<open>map_of [(''vitest.config.ts'', File ''defineConfig({ test: { coverage: "invalid" } })'')] ''vitest.config.ts'' = Some (File ''defineConfig({ test: { coverage: "invalid" } })'')
       \<and> ?p ''defineConfig({ test: { coverage: "invalid" } })'' = Some (JObject [(''test'', JObject [(''coverage'', JString ''invalid'')])])
       \<and> map_of [(''test'', JObject [(''coverage'', JString ''invalid'')])] ''test'' = Some (JObject [(''coverage'', JString ''invalid'')])
       \<and> ((\<forall>tkvs. JObject [(''coverage'', JString ''invalid'')] \<noteq> JObject tkvs)
            \<or> (\<exists>tkvs c. JObject [(''coverage'', JString ''invalid'')] = JObject tkvs \<and> map_of tkvs ''coverage'' = Some c
                  \<and> (\<forall>ckvs. c \<noteq> JObject ckvs))
            \<or> (\<exists>tkvs ckvs k v. JObject [(''coverage'', JString ''invalid'')] = JObject tkvs
                  \<and> map_of tkvs ''coverage'' = Some (JObject ckvs)
                  \<and> (k = ''exclude'' \<or> k = ''include'') \<and> map_of ckvs k = Some v
                  \<and> (\<forall>xs. v \<noteq> json_strings xs))
            \<or> (\<exists>tkvs v. JObject [(''coverage'', JString ''invalid'')] = JObject tkvs \<and> map_of tkvs ''exclude'' = Some v
                  \<and> (\<forall>xs. v \<noteq> json_strings xs)))\<close>
    by (simp add: json_strings_def)
  have h5c: \<open>map_of [(''vitest.config.ts'', File ''defineConfig({ test: { coverage: { exclude: "src" } } })'')] ''vitest.config.ts'' = Some (File ''defineConfig({ test: { coverage: { exclude: "src" } } })'')
       \<and> ?p ''defineConfig({ test: { coverage: { exclude: "src" } } })'' = Some (JObject [(''test'', JObject [(''coverage'', JObject [(''exclude'', JString ''src'')])])])
       \<and> map_of [(''test'', JObject [(''coverage'', JObject [(''exclude'', JString ''src'')])])] ''test'' = Some (JObject [(''coverage'', JObject [(''exclude'', JString ''src'')])])
       \<and> ((\<forall>tkvs. JObject [(''coverage'', JObject [(''exclude'', JString ''src'')])] \<noteq> JObject tkvs)
            \<or> (\<exists>tkvs c. JObject [(''coverage'', JObject [(''exclude'', JString ''src'')])] = JObject tkvs \<and> map_of tkvs ''coverage'' = Some c
                  \<and> (\<forall>ckvs. c \<noteq> JObject ckvs))
            \<or> (\<exists>tkvs ckvs k v. JObject [(''coverage'', JObject [(''exclude'', JString ''src'')])] = JObject tkvs
                  \<and> map_of tkvs ''coverage'' = Some (JObject ckvs)
                  \<and> (k = ''exclude'' \<or> k = ''include'') \<and> map_of ckvs k = Some v
                  \<and> (\<forall>xs. v \<noteq> json_strings xs))
            \<or> (\<exists>tkvs v. JObject [(''coverage'', JObject [(''exclude'', JString ''src'')])] = JObject tkvs \<and> map_of tkvs ''exclude'' = Some v
                  \<and> (\<forall>xs. v \<noteq> json_strings xs)))\<close>
    by (simp add: json_strings_def)
  have h6: \<open>map_of [(''vitest.config.ts'', File ''defineConfig({ test: { exclude: ["lib"] } })'')] ''vitest.config.ts'' = Some (File ''defineConfig({ test: { exclude: ["lib"] } })'')
       \<and> ?p ''defineConfig({ test: { exclude: ["lib"] } })'' = Some (JObject [(''test'', JObject [(''exclude'', json_strings [''lib''])])])
       \<and> map_of [(''test'', JObject [(''exclude'', json_strings [''lib''])])] ''test'' = Some (JObject [(''exclude'', json_strings [''lib''])])
       \<and> map_of [(''exclude'', json_strings [''lib''])] ''coverage'' = None
       \<and> map_of [(''exclude'', json_strings [''lib''])] ''exclude'' = map_option json_strings (Some [''lib''])\<close>
    by simp
  have h7: \<open>map_of [(''vitest.config.ts'', File ''defineConfig({ test: { clearMocks: true, coverage: { all: true, exclude: ["src/index.ts"], include: ["src", "other"] }, exclude: ["lib", "node_modules"] } })'')] ''vitest.config.ts'' = Some (File ''defineConfig({ test: { clearMocks: true, coverage: { all: true, exclude: ["src/index.ts"], include: ["src", "other"] }, exclude: ["lib", "node_modules"] } })'')
       \<and> ?p ''defineConfig({ test: { clearMocks: true, coverage: { all: true, exclude: ["src/index.ts"], include: ["src", "other"] }, exclude: ["lib", "node_modules"] } })'' = Some (JObject [(''test'', JObject [(''clearMocks'', JBool True), (''coverage'', JObject [(''all'', JBool True), (''exclude'', json_strings [''src/index.ts'']), (''include'', json_strings [''src'', ''other''])]), (''exclude'', json_strings [''lib'', ''node_modules''])])])
       \<and> map_of [(''test'', JObject [(''clearMocks'', JBool True), (''coverage'', JObject [(''all'', JBool True), (''exclude'', json_strings [''src/index.ts'']), (''include'', json_strings [''src'', ''other''])]), (''exclude'', json_strings [''lib'', ''node_modules''])])] ''test'' = Some (JObject [(''clearMocks'', JBool True), (''coverage'', JObject [(''all'', JBool True), (''exclude'', json_strings [''src/index.ts'']), (''include'', json_strings [''src'', ''other''])]), (''exclude'', json_strings [''lib'', ''node_modules''])])
       \<and> map_of [(''clearMocks'', JBool True), (''coverage'', JObject [(''all'', JBool True), (''exclude'', json_strings [''src/index.ts'']), (''include'', json_strings [''src'', ''other''])]), (''exclude'', json_strings [''lib'', ''node_modules''])] ''coverage'' = Some (JObject [(''all'', JBool True), (''exclude'', json_strings [''src/index.ts'']), (''include'', json_strings [''src'', ''other''])])
       \<and> map_of [(''all'', JBool True), (''exclude'', json_strings [''src/index.ts'']), (''include'', json_strings [''src'', ''other''])] ''exclude'' = map_option json_strings (Some [''src/index.ts''])
       \<and> map_of [(''all'', JBool True), (''exclude'', json_strings [''src/index.ts'']), (''include'', json_strings [''src'', ''other''])] ''include'' = map_option json_strings (Some [''src'', ''other''])
       \<and> map_of [(''clearMocks'', JBool True), (''coverage'', JObject [(''all'', JBool True), (''exclude'', json_strings [''src/index.ts'']), (''include'', json_strings [''src'', ''other''])]), (''exclude'', json_strings [''lib'', ''node_modules''])] ''exclude'' = map_option json_strings (Some [''lib'', ''node_modules''])\<close>
    by simp
  note ta = blockVitest_intake_cases [where parse = ?p
      and ?fs1.0 = "[(''src'', Directory [])]"
      and ?fs2.0 = \<open>[(''vitest.config.ts'', File ''defineConfig({ test: { ! } })'')]\<close> and ?text2.0 = \<open>''defineConfig({ test: { ! } })''\<close>
      and ?fs3.0 = \<open>[(''vitest.config.ts'', File ''defineConfig("invalid")'')]\<close> and ?text3.0 = \<open>''defineConfig("invalid")''\<close>
      and ?arg3.0 = "JString ''invalid''"
      and ?fs4.0 = \<open>[(''vitest.config.ts'', File ''defineConfig({ other: true })'')]\<close> and ?text4.0 = \<open>''defineConfig({ other: true })''\<close>
      and ?kvs4.0 = "[(''other'', JBool True)]"
      and ?fs5.0 = \<open>[(''vitest.config.ts'', File ''defineConfig({ test: true })'')]\<close> and ?text5.0 = \<open>''defineConfig({ test: true })''\<close>
      and ?kvs5.0 = "[(''test'', JBool True)]" and ?t5.0 = "JBool True"
      and ?fs6.0 = \<open>[(''vitest.config.ts'', File ''defineConfig({ test: { exclude: ["lib"] } })'')]\<close> and ?text6.0 = \<open>''defineConfig({ test: { exclude: ["lib"] } })''\<close>
      and ?kvs6.0 = "[(''test'', JObject [(''exclude'', json_strings [''lib''])])]" and ?tkvs6.0 = "[(''exclude'', json_strings [''lib''])]"
      and ?e6.0 = "Some [''lib'']"
      and ?fs7.0 = \<open>[(''vitest.config.ts'', File ''defineConfig({ test: { clearMocks: true, coverage: { all: true, exclude: ["src/index.ts"], include: ["src", "other"] }, exclude: ["lib", "node_modules"] } })'')]\<close> and ?text7.0 = \<open>''defineConfig({ test: { clearMocks: true, coverage: { all: true, exclude: ["src/index.ts"], include: ["src", "other"] }, exclude: ["lib", "node_modules"] } })''\<close>
      and ?kvs7.0 = "[(''test'', JObject [(''clearMocks'', JBool True), (''coverage'', JObject [(''all'', JBool True), (''exclude'', json_strings [''src/index.ts'']), (''include'', json_strings [''src'', ''other''])]), (''exclude'', json_strings [''lib'', ''node_modules''])])]" and ?tkvs7.0 = "[(''clearMocks'', JBool True), (''coverage'', JObject [(''all'', JBool True), (''exclude'', json_strings [''src/index.ts'']), (''include'', json_strings [''src'', ''other''])]), (''exclude'', json_strings [''lib'', ''node_modules''])]"
      and ?ckvs7.0 = "[(''all'', JBool True), (''exclude'', json_strings [''src/index.ts'']), (''include'', json_strings [''src'', ''other''])]"
      and ce = "Some [''src/index.ts'']" and ci = "Some [''src'', ''other'']"
      and ?e7.0 = "Some [''lib'', ''node_modules'']"]
  note tb = blockVitest_intake_cases [where parse = ?p
      and ?fs1.0 = "[(''src'', Directory [])]"
      and ?fs2.0 = \<open>[(''vitest.config.ts'', File ''defineConfig({ test: { ! } })'')]\<close> and ?text2.0 = \<open>''defineConfig({ test: { ! } })''\<close>
      and ?fs3.0 = \<open>[(''vitest.config.ts'', File ''defineConfig("invalid")'')]\<close> and ?text3.0 = \<open>''defineConfig("invalid")''\<close>
      and ?arg3.0 = "JString ''invalid''"
      and ?fs4.0 = \<open>[(''vitest.config.ts'', File ''defineConfig({ other: true })'')]\<close> and ?text4.0 = \<open>''defineConfig({ other: true })''\<close>
      and ?kvs4.0 = "[(''other'', JBool True)]"
      and ?fs5.0 = \<open>[(''vitest.config.ts'', File ''defineConfig({ test: { coverage: "invalid" } })'')]\<close> and ?text5.0 = \<open>''defineConfig({ test: { coverage: "invalid" } })''\<close>
      and ?kvs5.0 = "[(''test'', JObject [(''coverage'', JString ''invalid'')])]" and ?t5.0 = "JObject [(''coverage'', JString ''invalid'')]"
      and ?fs6.0 = \<open>[(''vitest.config.ts'', File ''defineConfig({ test: { exclude: ["lib"] } })'')]\<close> and ?text6.0 = \<open>''defineConfig({ test: { exclude: ["lib"] } })''\<close>
      and ?kvs6.0 = "[(''test'', JObject [(''exclude'', json_strings [''lib''])])]" and ?tkvs6.0 = "[(''exclude'', json_strings [''lib''])]"
      and ?e6.0 = "Some [''lib'']"
      and ?fs7.0 = \<open>[(''vitest.config.ts'', File ''defineConfig({ test: { clearMocks: true, coverage: { all: true, exclude: ["src/index.ts"], include: ["src", "other"] }, exclude: ["lib", "node_modules"] } })'')]\<close> and ?text7.0 = \<open>''defineConfig({ test: { clearMocks: true, coverage: { all: true, exclude: ["src/index.ts"], include: ["src", "other"] }, exclude: ["lib", "node_modules"] } })''\<close>
      and ?kvs7.0 = "[(''test'', JObject [(''clearMocks'', JBool True), (''coverage'', JObject [(''all'', JBool True), (''exclude'', json_strings [''src/index.ts'']), (''include'', json_strings [''src'', ''other''])]), (''exclude'', json_strings [''lib'', ''node_modules''])])]" and ?tkvs7.0 = "[(''clearMocks'', JBool True), (''coverage'', JObject [(''all'', JBool True), (''exclude'', json_strings [''src/index.ts'']), (''include'', json_strings [''src'', ''other''])]), (''exclude'', json_strings [''lib'', ''node_modules''])]"
      and ?ckvs7.0 = "[(''all'', JBool True), (''exclude'', json_strings [''src/index.ts'']), (''include'', json_strings [''src'', ''other''])]"
      and ce = "Some [''src/index.ts'']" and ci = "Some [''src'', ''other'']"
      and ?e7.0 = "Some [''lib'', ''node_modules'']"]
  note tc = blockVitest_intake_cases [where parse = ?p
      and ?fs1.0 = "[(''src'', Directory [])]"
      and ?fs2.0 = \<open>[(''vitest.config.ts'', File ''defineConfig({ test: { ! } })'')]\<close> and ?text2.0 = \<open>''defineConfig({ test: { ! } })''\<close>
      and ?fs3.0 = \<open>[(''vitest.config.ts'', File ''defineConfig("invalid")'')]\<close> and ?text3.0 = \<open>''defineConfig("invalid")''\<close>
      and ?arg3.0 = "JString ''invalid''"
      and ?fs4.0 = \<open>[(''vitest.config.ts'', File ''defineConfig({ other: true })'')]\<close> and ?text4.0 = \<open>''defineConfig({ other: true })''\<close>
      and ?kvs4.0 = "[(''other'', JBool True)]"
      and ?fs5.0 = \<open>[(''vitest.config.ts'', File ''defineConfig({ test: { coverage: { exclude: "src" } } })'')]\<close> and ?text5.0 = \<open>''defineConfig({ test: { coverage: { exclude: "src" } } })''\<close>
      and ?kvs5.0 = "[(''test'', JObject [(''coverage'', JObject [(''exclude'', JString ''src'')])])]" and ?t5.0 = "JObject [(''coverage'', JObject [(''exclude'', JString ''src'')])]"
      and ?fs6.0 = \<open>[(''vitest.config.ts'', File ''defineConfig({ test: { exclude: ["lib"] } })'')]\<close> and ?text6.0 = \<open>''defineConfig({ test: { exclude: ["lib"] } })''\<close>
      and ?kvs6.0 = "[(''test'', JObject [(''exclude'', json_strings [''lib''])])]" and ?tkvs6.0 = "[(''exclude'', json_strings [''lib''])]"
      and ?e6.0 = "Some [''lib'']"
      and ?fs7.0 = \<open>[(''vitest.config.ts'', File ''defineConfig({ test: { clearMocks: true, coverage: { all: true, exclude: ["src/index.ts"], include: ["src", "other"] }, exclude: ["lib", "node_modules"] } })'')]\<close> and ?text7.0 = \<open>''defineConfig({ test: { clearMocks: true, coverage: { all: true, exclude: ["src/index.ts"], include: ["src", "other"] }, exclude: ["lib", "node_modules"] } })''\<close>
      and ?kvs7.0 = "[(''test'', JObject [(''clearMocks'', JBool True), (''coverage'', JObject [(''all'', JBool True), (''exclude'', json_strings [''src/index.ts'']), (''include'', json_strings [''src'', ''other''])]), (''exclude'', json_strings [''lib'', ''node_modules''])])]" and ?tkvs7.0 = "[(''clearMocks'', JBool True), (''coverage'', JObject [(''all'', JBool True), (''exclude'', json_strings [''src/index.ts'']), (''include'', json_strings [''src'', ''other''])]), (''exclude'', json_strings [''lib'', ''node_modules''])]"
      and ?ckvs7.0 = "[(''all'', JBool True), (''exclude'', json_strings [''src/index.ts'']), (''include'', json_strings [''src'', ''other''])]"
      and ce = "Some [''src/index.ts'']" and ci = "Some [''src'', ''other'']"
      and ?e7.0 = "Some [''lib'', ''node_modules'']"]
  show ?thesis
    unfolding Let_def using ta tb tc h1 h2 h3 h4 h5a h5b h5c h6 h7 by blast
qed

end
